theory Spec2Isabelle
  imports
    Complex_Main
    "HOL-Library.Signed_Division"
    "HOL-Library.AList"
    "HOL-Library.Char_ord"
    "HOL-Library.List_Lexorder"
begin

section \<open>Data model of \<open>DiskImageResourceOpenEXR\<close>\<close>

text \<open>
  The embedding follows \<^verbatim>\<open>src/vw/FileIO/DiskImageResourceOpenEXR.cc\<close>. The C++ values of
  type \<^verbatim>\<open>int\<close> and \<^verbatim>\<open>int32\<close> are modelled as \<open>int\<close>; none of the properties below
  depends on 32-bit wrap-around. An exception leaves the object as it was mutated up to the
  \<^verbatim>\<open>throw\<close>, so every operation returns the outcome together with the resulting object.
\<close>

subsection \<open>Exceptions\<close>

text \<open>
  The exceptions of \<^verbatim>\<open>vw/Core/Exception.h\<close> that the file raises, each carrying its message;
  \<open>Throw_iex\<close> is an \<^verbatim>\<open>Iex::BaseExc\<close> of the OpenEXR library with its \<^verbatim>\<open>what()\<close> text;
  \<open>Throw_std\<close> is an exception of the C++ standard library;
  \<open>Undefined_behaviour\<close> stands for the places where C++ gives the program no meaning
  (an index past the end of a vector, a remainder by zero).
\<close>

datatype vw_exception =
    ArgumentErr string
  | LogicErr string
  | IOErr string
  | NoImplErr string

datatype abort =
    Throw_vw vw_exception
  | Throw_iex string
  | Throw_std string
  | Undefined_behaviour

fun is_ArgumentErr :: "abort option \<Rightarrow> bool" where
  "is_ArgumentErr (Some (Throw_vw (ArgumentErr m))) = True"
| "is_ArgumentErr x = False"

fun is_LogicErr :: "abort option \<Rightarrow> bool" where
  "is_LogicErr (Some (Throw_vw (LogicErr m))) = True"
| "is_LogicErr x = False"

fun is_IOErr :: "abort option \<Rightarrow> bool" where
  "is_IOErr (Some (Throw_vw (IOErr m))) = True"
| "is_IOErr x = False"

fun is_NoImplErr :: "abort option \<Rightarrow> bool" where
  "is_NoImplErr (Some (Throw_vw (NoImplErr m))) = True"
| "is_NoImplErr x = False"


text \<open>
  \<^verbatim>\<open>try { ... } catch (Iex::BaseExc e) { vw_throw( vw::IOErr() << prefix << e.what() ); }\<close>:
  only the library's exceptions are caught; a \<^verbatim>\<open>vw\<close> exception raised inside the block
  passes through.
\<close>

fun catch_iex :: "string \<Rightarrow> abort option \<Rightarrow> abort option" where
  "catch_iex prefix (Some (Throw_iex e)) = Some (Throw_vw (IOErr (prefix @ e)))"
| "catch_iex prefix x = x"

subsection \<open>Formats, headers and the resource object\<close>

text \<open>
  The enumerations of \<^verbatim>\<open>vw/Image/PixelTypeInfo.h\<close> are not part of the sources at hand; the
  three pixel formats and the channel type the file names are constructors, every other
  enumerator is \<open>VW_PIXEL_OTHER\<close> or \<open>VW_CHANNEL_OTHER\<close> with its number.
\<close>

datatype pixel_format_enum =
    VW_PIXEL_SCALAR
  | VW_PIXEL_RGB
  | VW_PIXEL_RGBA
  | VW_PIXEL_OTHER nat

datatype channel_type_enum =
    VW_CHANNEL_FLOAT32
  | VW_CHANNEL_OTHER nat

record image_format =
  cols :: int
  rows :: int
  planes :: int
  pixel_format :: pixel_format_enum
  channel_type :: channel_type_enum

datatype line_order = INCREASING_Y | DECREASING_Y | RANDOM_Y

text \<open>
  What the file uses of an \<^verbatim>\<open>Imf::Header\<close>: the data window (\<open>min\<close>, \<open>max\<close>), the names of
  the channel list in the order in which its iterator yields them, the tile description
  (\<open>xSize\<close>, \<open>ySize\<close>) when there is one, and the line order.
\<close>

record exr_header =
  dataWindow :: "(int \<times> int) \<times> (int \<times> int)"
  channels :: "string list"
  tileDescription :: "(int \<times> int) option"
  lineOrder :: line_order

definition hasTileDescription :: "exr_header \<Rightarrow> bool" where
  "hasTileDescription h = (tileDescription h \<noteq> None)"

text \<open>The object behind \<^verbatim>\<open>m_input_file_ptr\<close> or \<^verbatim>\<open>m_output_file_ptr\<close>.\<close>

record exr_file =
  file_name :: string
  file_header :: exr_header

text \<open>
  The members of the class; \<open>None\<close> is the null pointer. \<^verbatim>\<open>delete\<close> does not reset a
  pointer, so a pointer whose file was deleted stays non-null, as in the source.
\<close>

record resource =
  m_filename :: string
  m_format :: image_format
  m_block_size :: "int \<times> int"
  m_labels :: "string list"
  m_input_file_ptr :: "exr_file option"
  m_output_file_ptr :: "exr_file option"
  m_tiled :: bool

text \<open>\<^verbatim>\<open>BBox2i\<close>: \<open>min\<close> and \<open>max\<close> corners, \<open>width = max.x - min.x\<close>, \<open>height = max.y - min.y\<close>.\<close>

record bbox =
  bmin :: "int \<times> int"
  bmax :: "int \<times> int"

definition width :: "bbox \<Rightarrow> int" where
  "width b = fst (bmax b) - fst (bmin b)"

definition height :: "bbox \<Rightarrow> int" where
  "height b = snd (bmax b) - snd (bmin b)"

subsection \<open>The OpenEXR library\<close>

text \<open>
  The calls into the library that touch a file, in the order in which an operation makes
  them; an operation appends to this trace.
\<close>

datatype exr_call =
    New_InputFile string
  | New_TiledInputFile string
  | Delete_InputFile
  | New_OutputFile string exr_header
  | New_TiledOutputFile string exr_header
  | Delete_OutputFile
  | Delete_TiledOutputFile
  | ReadTiles int int int int
  | ReadPixels int int
  | WriteTiles int int int int
  | WritePixels int

text \<open>
  The library is a parameter: what each constructor and each transfer answers. \<open>Inl e\<close>
  and \<open>Some e\<close> are an \<^verbatim>\<open>Iex::BaseExc\<close> with \<^verbatim>\<open>what() = e\<close>. A successful read answers, for
  a channel name, the samples of that channel in the region read; a slice whose name the
  file does not have receives the fill value. \<open>missing_attribute_what\<close> is the text of the
  exception that \<^verbatim>\<open>header().tileDescription()\<close> raises on a header without tiles,
  \<open>empty_channel_name_what\<close> and \<open>empty_slice_name_what\<close> the texts of the exceptions that
  \<^verbatim>\<open>ChannelList::insert\<close> and \<^verbatim>\<open>FrameBuffer::insert\<close> raise on an empty name.
\<close>

record 'd exr_backend =
  new_InputFile :: "string \<Rightarrow> string + exr_header"
  new_TiledInputFile :: "string \<Rightarrow> string + exr_header"
  new_OutputFile :: "string \<Rightarrow> exr_header \<Rightarrow> string option"
  new_TiledOutputFile :: "string \<Rightarrow> exr_header \<Rightarrow> string option"
  read_answer :: "exr_file \<Rightarrow> bbox \<Rightarrow> exr_call \<Rightarrow> string + (string \<Rightarrow> 'd)"
  write_answer :: "exr_file \<Rightarrow> bbox \<Rightarrow> exr_call \<Rightarrow> (string \<times> 'd) list \<Rightarrow> string option"
  fill_value :: "'d"
  missing_attribute_what :: string
  empty_channel_name_what :: string
  empty_slice_name_what :: string

subsection \<open>\<open>native_block_size\<close> and \<open>open\<close>\<close>

definition native_block_size :: "resource \<Rightarrow> int \<times> int" where
  "native_block_size r = m_block_size r"

text \<open>
  The second half of the \<^verbatim>\<open>try\<close> block of \<^verbatim>\<open>open\<close> (lines 131 to 152), on the header \<open>h\<close> of
  the file now behind \<^verbatim>\<open>m_input_file_ptr\<close>. \<open>rpb\<close> is the class constant
  \<^verbatim>\<open>m_openexr_rows_per_block\<close>, declared in the header file of the class.
\<close>

definition open_header ::
  "'d exr_backend \<Rightarrow> int \<Rightarrow> exr_header \<Rightarrow> resource \<times> exr_call list
    \<Rightarrow> abort option \<times> resource \<times> exr_call list" where
  "open_header be rpb h s =
    (let (r, io) = s;
         ((min_x, min_y), (max_x, max_y)) = dataWindow h;
         num_channels = int (length (channels h));
         r = r\<lparr>m_format := (m_format r)\<lparr>cols := max_x - min_x + 1,
                                          rows := max_y - min_y + 1,
                                          planes := num_channels,
                                          pixel_format := VW_PIXEL_SCALAR\<rparr>\<rparr>
     in if m_tiled r then
          (case tileDescription h of
             None \<Rightarrow> (Some (Throw_iex (missing_attribute_what be)), r, io)
           | Some desc \<Rightarrow> (None, r\<lparr>m_block_size := desc\<rparr>, io))
        else (None, r\<lparr>m_block_size := (cols (m_format r), rpb)\<rparr>, io))"

text \<open>The \<^verbatim>\<open>try\<close> block of \<^verbatim>\<open>open\<close>.\<close>

definition open_try ::
  "'d exr_backend \<Rightarrow> int \<Rightarrow> string \<Rightarrow> resource \<times> exr_call list
    \<Rightarrow> abort option \<times> resource \<times> exr_call list" where
  "open_try be rpb filename s =
    (let (r, io) = s;
         r = r\<lparr>m_filename := filename\<rparr>
     in if m_input_file_ptr r \<noteq> None then
          (Some (Throw_vw (IOErr ''Disk image resources do not yet support reuse.'')), r, io)
        else
          (case new_InputFile be filename of
             Inl e \<Rightarrow> (Some (Throw_iex e), r, io @ [New_InputFile filename])
           | Inr h \<Rightarrow>
               let r = r\<lparr>m_input_file_ptr := Some \<lparr>file_name = filename, file_header = h\<rparr>\<rparr>;
                   io = io @ [New_InputFile filename]
               in if hasTileDescription h then
                    (let io = io @ [Delete_InputFile, New_TiledInputFile filename]
                     in case new_TiledInputFile be filename of
                          Inl e \<Rightarrow> (Some (Throw_iex e), r, io)
                        | Inr h' \<Rightarrow>
                            open_header be rpb h'
                              (r\<lparr>m_input_file_ptr :=
                                    Some \<lparr>file_name = filename, file_header = h'\<rparr>,
                                  m_tiled := True\<rparr>, io))
                  else open_header be rpb h (r, io)))"

definition open_exr ::
  "'d exr_backend \<Rightarrow> int \<Rightarrow> string \<Rightarrow> resource \<times> exr_call list
    \<Rightarrow> abort option \<times> resource \<times> exr_call list" where
  "open_exr be rpb filename s =
    (case open_try be rpb filename s of
       (x, s') \<Rightarrow>
         (catch_iex (''DiskImageResourceOpenEXR: could not open '' @ filename
                      @ [CHR '':'', CHR 0x0A, CHR 0x09]) x, s'))"

subsection \<open>Channel labels\<close>

text \<open>\<^verbatim>\<open>operator<<\<close> of an \<^verbatim>\<open>int\<close> on a stream: decimal digits, a minus sign when negative.\<close>

function string_of_nat :: "nat \<Rightarrow> string" where
  "string_of_nat n =
    (if 10 \<le> n then string_of_nat (n div 10) else []) @ [char_of (48 + n mod 10)]"
  by pat_completeness auto
termination
  by (relation "measure id") auto

definition string_of_int :: "int \<Rightarrow> string" where
  "string_of_int i =
    (if i < 0 then CHR ''-'' # string_of_nat (nat (- i)) else string_of_nat (nat i))"

definition openexr_channel_string_of_pixel_type ::
  "pixel_format_enum \<Rightarrow> int \<Rightarrow> vw_exception + string" where
  "openexr_channel_string_of_pixel_type pf channel =
    (let invalid = Inl (ArgumentErr (''ChannelStringOfPixelType: Invalid channel number (''
                                      @ string_of_int channel @ '')''))
     in if pf = VW_PIXEL_RGB then
          (if channel = 0 then Inr ''R''
           else if channel = 1 then Inr ''G''
           else if channel = 2 then Inr ''B''
           else invalid)
        else if pf = VW_PIXEL_RGBA then
          (if channel = 0 then Inr ''R''
           else if channel = 1 then Inr ''G''
           else if channel = 2 then Inr ''B''
           else if channel = 3 then Inr ''A''
           else invalid)
        else Inr (''Channel'' @ string_of_int channel))"

text \<open>
  \<^verbatim>\<open>header.channels().insert(name, ...)\<close>: the channel list is a map ordered by name, so
  a name already there is kept once and the iteration order is the sorted one.
\<close>

definition ChannelList_insert :: "string \<Rightarrow> string list \<Rightarrow> string list" where
  "ChannelList_insert name cs = (if name \<in> set cs then cs else insort name cs)"

text \<open>
  The loop of lines 176 to 179 and 213 to 216 over the plane numbers still to do: it
  assigns \<^verbatim>\<open>m_labels[nn]\<close> and inserts the label into the header's channel list. It stops
  at the first exception with the labels assigned so far.
\<close>

fun label_loop ::
  "'d exr_backend \<Rightarrow> pixel_format_enum \<Rightarrow> nat list \<Rightarrow> string list \<Rightarrow> string list
    \<Rightarrow> abort option \<times> string list \<times> string list" where
  "label_loop be pf [] labels chans = (None, labels, chans)"
| "label_loop be pf (nn # rest) labels chans =
    (case openexr_channel_string_of_pixel_type pf (int nn) of
       Inl ex \<Rightarrow> (Some (Throw_vw ex), labels, chans)
     | Inr name \<Rightarrow>
         if length labels \<le> nn then (Some Undefined_behaviour, labels, chans)
         else if name = [] then
           (Some (Throw_iex (empty_channel_name_what be)), labels[nn := name], chans)
         else label_loop be pf rest (labels[nn := name]) (ChannelList_insert name chans))"

text \<open>\<^verbatim>\<open>Imf::Header header (cols, rows)\<close>: data window from (0,0), no channels, no tiles.\<close>

definition Header :: "int \<Rightarrow> int \<Rightarrow> exr_header" where
  "Header w h = \<lparr>dataWindow = ((0, 0), (w - 1, h - 1)), channels = [],
                 tileDescription = None, lineOrder = INCREASING_Y\<rparr>"

subsection \<open>\<open>set_tiled_write\<close>, \<open>set_scanline_write\<close> and \<open>create\<close>\<close>

text \<open>The \<^verbatim>\<open>try\<close> block of \<^verbatim>\<open>set_tiled_write\<close> (lines 172 to 190).\<close>

definition set_tiled_write_try ::
  "'d exr_backend \<Rightarrow> bool \<Rightarrow> resource \<times> exr_call list
    \<Rightarrow> abort option \<times> resource \<times> exr_call list" where
  "set_tiled_write_try be random_tile_order s =
    (let (r, io) = s;
         header = Header (cols (m_format r)) (rows (m_format r));
         (x, labels, chans) =
            label_loop be (pixel_format (m_format r)) [0 ..< nat (planes (m_format r))]
              (m_labels r) (channels header);
         r = r\<lparr>m_labels := labels\<rparr>
     in case x of
          Some a \<Rightarrow> (Some a, r, io)
        | None \<Rightarrow>
            let header = header\<lparr>channels := chans,
                                tileDescription := Some (m_block_size r),
                                lineOrder := (if random_tile_order then RANDOM_Y
                                              else lineOrder header)\<rparr>;
                io = io @ [New_TiledOutputFile (m_filename r) header]
            in (case new_TiledOutputFile be (m_filename r) header of
                  Some e \<Rightarrow> (Some (Throw_iex e), r, io)
                | None \<Rightarrow>
                    (None, r\<lparr>m_output_file_ptr :=
                               Some \<lparr>file_name = m_filename r, file_header = header\<rparr>\<rparr>, io)))"

text \<open>
  The statements of \<^verbatim>\<open>set_tiled_write\<close> before its \<^verbatim>\<open>try\<close> block (lines 161 to 170). The
  old file is deleted through the cast that \<open>m_tiled\<close>, just set, selects; the pointer
  keeps its value.
\<close>

definition set_tiled_write_begin ::
  "int \<Rightarrow> int \<Rightarrow> resource \<times> exr_call list \<Rightarrow> resource \<times> exr_call list" where
  "set_tiled_write_begin tile_width tile_height s =
    (let (r, io) = s;
         r = r\<lparr>m_tiled := True, m_block_size := (tile_width, tile_height)\<rparr>
     in (r, if m_output_file_ptr r \<noteq> None
            then io @ [if m_tiled r then Delete_TiledOutputFile else Delete_OutputFile]
            else io))"

definition set_tiled_write ::
  "'d exr_backend \<Rightarrow> int \<Rightarrow> int \<Rightarrow> bool \<Rightarrow> resource \<times> exr_call list
    \<Rightarrow> abort option \<times> resource \<times> exr_call list" where
  "set_tiled_write be tile_width tile_height random_tile_order s =
    (case set_tiled_write_try be random_tile_order
            (set_tiled_write_begin tile_width tile_height s) of
       (x, s') \<Rightarrow>
         (catch_iex (''DiskImageResourceOpenEXR: Failed to create '' @ m_filename (fst s)
                      @ [CHR ''.'', CHR 0x0A, CHR 0x09]) x, s'))"

text \<open>The \<^verbatim>\<open>try\<close> block of \<^verbatim>\<open>set_scanline_write\<close> (lines 209 to 220).\<close>

definition set_scanline_write_try ::
  "'d exr_backend \<Rightarrow> int \<Rightarrow> resource \<times> exr_call list
    \<Rightarrow> abort option \<times> resource \<times> exr_call list" where
  "set_scanline_write_try be rpb s =
    (let (r, io) = s;
         header = Header (cols (m_format r)) (rows (m_format r));
         (x, labels, chans) =
            label_loop be (pixel_format (m_format r)) [0 ..< nat (planes (m_format r))]
              (m_labels r) (channels header);
         r = r\<lparr>m_labels := labels\<rparr>
     in case x of
          Some a \<Rightarrow> (Some a, r, io)
        | None \<Rightarrow>
            let header = header\<lparr>channels := chans, lineOrder := INCREASING_Y\<rparr>;
                r = r\<lparr>m_block_size := (cols (m_format r), rpb)\<rparr>;
                io = io @ [New_OutputFile (m_filename r) header]
            in (case new_OutputFile be (m_filename r) header of
                  Some e \<Rightarrow> (Some (Throw_iex e), r, io)
                | None \<Rightarrow>
                    (None, r\<lparr>m_output_file_ptr :=
                               Some \<lparr>file_name = m_filename r, file_header = header\<rparr>\<rparr>, io)))"

text \<open>The statements of \<^verbatim>\<open>set_scanline_write\<close> before its \<^verbatim>\<open>try\<close> block (lines 198 to 207).\<close>

definition set_scanline_write_begin ::
  "int \<Rightarrow> resource \<times> exr_call list \<Rightarrow> resource \<times> exr_call list" where
  "set_scanline_write_begin scanlines_per_block s =
    (let (r, io) = s;
         r = r\<lparr>m_tiled := False,
               m_block_size := (cols (m_format r), scanlines_per_block)\<rparr>
     in (r, if m_output_file_ptr r \<noteq> None
            then io @ [if m_tiled r then Delete_TiledOutputFile else Delete_OutputFile]
            else io))"

definition set_scanline_write ::
  "'d exr_backend \<Rightarrow> int \<Rightarrow> int \<Rightarrow> resource \<times> exr_call list
    \<Rightarrow> abort option \<times> resource \<times> exr_call list" where
  "set_scanline_write be rpb scanlines_per_block s =
    (case set_scanline_write_try be rpb (set_scanline_write_begin scanlines_per_block s) of
       (x, s') \<Rightarrow>
         (catch_iex (''DiskImageResourceOpenEXR: Failed to create '' @ m_filename (fst s)
                      @ [CHR ''.'', CHR 0x0A, CHR 0x09]) x, s'))"

text \<open>
  Modelled from the spec: \<^verbatim>\<open>VW_ASSERT(cond, excep)\<close>, a macro of \<^verbatim>\<open>vw/Core/Exception.h\<close>,
  which is not part of the sources at hand: the exception is raised when the condition
  does not hold.
\<close>

definition VW_ASSERT :: "bool \<Rightarrow> vw_exception \<Rightarrow> abort option" where
  "VW_ASSERT cond excep = (if cond then None else Some (Throw_vw excep))"

text \<open>\<^verbatim>\<open>m_labels.resize(n)\<close>.\<close>

definition resize :: "string list \<Rightarrow> nat \<Rightarrow> string list" where
  "resize xs n = take n xs @ replicate (n - length xs) []"

text \<open>
  The assignments of \<^verbatim>\<open>create\<close> (lines 235 to 241). \<open>num_channels\<close> is the function of
  that name of \<^verbatim>\<open>vw/Image/PixelTypeInfo.h\<close>, the number of channels of a pixel format; it
  is a parameter.
\<close>

definition create_begin ::
  "(pixel_format_enum \<Rightarrow> nat) \<Rightarrow> string \<Rightarrow> image_format \<Rightarrow> resource \<times> exr_call list
    \<Rightarrow> resource \<times> exr_call list" where
  "create_begin num_channels filename format s =
    (let (r, io) = s;
         r = r\<lparr>m_filename := filename, m_format := format\<rparr>;
         r = r\<lparr>m_format := (m_format r)\<lparr>channel_type := VW_CHANNEL_FLOAT32\<rparr>\<rparr>;
         r = r\<lparr>m_format := (m_format r)\<lparr>planes :=
                 max (planes format) (int (num_channels (pixel_format format)))\<rparr>\<rparr>;
         r = r\<lparr>m_labels := resize (m_labels r) (nat (planes (m_format r)))\<rparr>
     in (r, io))"

text \<open>
  \<^verbatim>\<open>create\<close>: the assertion, the assignments, then \<^verbatim>\<open>set_tiled_write(2048,2048)\<close>. The call
  leaves the third argument to its default, which the class header declares; it is taken
  to be \<^verbatim>\<open>false\<close> and reaches only the line order of the header given to the library.
\<close>

definition create ::
  "'d exr_backend \<Rightarrow> (pixel_format_enum \<Rightarrow> nat) \<Rightarrow> string \<Rightarrow> image_format
    \<Rightarrow> resource \<times> exr_call list \<Rightarrow> abort option \<times> resource \<times> exr_call list" where
  "create be num_channels filename format s =
    (case VW_ASSERT (planes format = 1 \<or> pixel_format format = VW_PIXEL_SCALAR)
            (NoImplErr (''DiskImageResourceOpenEXR: Cannot create '' @ filename
               @ [CHR 0x0A, CHR 0x09]
               @ ''The image cannot have both multiple channels and multiple planes.''
               @ [CHR 0x0A])) of
       Some a \<Rightarrow> (Some a, s)
     | None \<Rightarrow>
         set_tiled_write be 2048 2048 False (create_begin num_channels filename format s))"

subsection \<open>\<open>read\<close> and \<open>write\<close>\<close>

text \<open>
  The image side, a parameter: \<^verbatim>\<open>convert\<close> of \<^verbatim>\<open>vw/Image/ImageResource.h\<close> in its two uses
  and a freshly allocated plane of an \<^verbatim>\<open>ImageView<float>\<close>. \<open>'b\<close> is the contents of the
  caller's buffer, \<open>'d\<close> the samples of one plane of the \<open>float\<close> staging image.
  \<open>convert_out dest src_image\<close> is \<^verbatim>\<open>convert(dest, src_image.buffer())\<close> of \<^verbatim>\<open>read\<close>: the
  exception it may raise and the contents of \<open>dest\<close> afterwards.
  \<open>convert_in width height planes src\<close> is \<^verbatim>\<open>convert(dst, src)\<close> of \<^verbatim>\<open>write\<close> into a staging
  image of that shape: an exception, or the staging plane of each number.
\<close>

record ('b, 'd) image_ops =
  convert_out :: "'b \<Rightarrow> 'd list \<Rightarrow> vw_exception option \<times> 'b"
  convert_in :: "int \<Rightarrow> int \<Rightarrow> int \<Rightarrow> 'b \<Rightarrow> vw_exception + (nat \<Rightarrow> 'd)"
  blank :: "int \<Rightarrow> int \<Rightarrow> 'd"

text \<open>
  Lines 269 to 273: a vector of \<open>n\<close> empty names receives the names of the header's
  channels from index 0 on; more channels than \<open>n\<close> write past its end.
\<close>

definition header_channel_names :: "nat \<Rightarrow> string list \<Rightarrow> string list option" where
  "header_channel_names n cs =
    (if n < length cs then None else Some (cs @ replicate (n - length cs) []))"

text \<open>Lines 280 to 298: the names become R, G, B (, A) when all of them are present.\<close>

definition reorder_channel_names :: "int \<Rightarrow> string list \<Rightarrow> string list" where
  "reorder_channel_names n channel_names =
    (if n = 3 then
       (if ''R'' \<in> set channel_names \<and> ''G'' \<in> set channel_names
           \<and> ''B'' \<in> set channel_names
        then channel_names[0 := ''R'', 1 := ''G'', 2 := ''B'']
        else channel_names)
     else if n = 4 then
       (if ''R'' \<in> set channel_names \<and> ''G'' \<in> set channel_names
           \<and> ''B'' \<in> set channel_names \<and> ''A'' \<in> set channel_names
        then channel_names[0 := ''R'', 1 := ''G'', 2 := ''B'', 3 := ''A'']
        else channel_names)
     else channel_names)"

text \<open>
  The two iterations that build the \<^verbatim>\<open>Imf::FrameBuffer\<close> (lines 303 to 307 and 350 to 355): a map
  from a channel name to the slice of plane \<open>nn\<close>; a name inserted again replaces its slice.
\<close>

fun frameBuffer_loop ::
  "'d exr_backend \<Rightarrow> string list \<Rightarrow> nat list \<Rightarrow> (string \<times> nat) list
    \<Rightarrow> abort + (string \<times> nat) list" where
  "frameBuffer_loop be names [] fb = Inr fb"
| "frameBuffer_loop be names (nn # rest) fb =
    (if length names \<le> nn then Inl Undefined_behaviour
     else if names ! nn = [] then Inl (Throw_iex (empty_slice_name_what be))
     else frameBuffer_loop be names rest (AList.update (names ! nn) nn fb))"

text \<open>
  The tiled branch up to the transfer (lines 309 to 316 and 359 to 367): the assertion on
  the corner of the box, then the range of tiles. \<^verbatim>\<open>%\<close> and \<^verbatim>\<open>/\<close> of C++ truncate towards
  zero and have no meaning for a zero divisor; \<^verbatim>\<open>&&\<close> evaluates its right side only when
  the left side holds.
\<close>

definition tile_range ::
  "int \<times> int \<Rightarrow> bbox \<Rightarrow> string \<Rightarrow> abort + (int \<times> int \<times> int \<times> int)" where
  "tile_range block_size bb msg =
    (let (bw, bh) = block_size; (x, y) = bmin bb; (max_x, max_y) = bmax bb
     in if bw = 0 \<or> (x smod bw = 0 \<and> bh = 0) then Inl Undefined_behaviour
        else (case VW_ASSERT (x smod bw = 0 \<and> y smod bh = 0) (ArgumentErr msg) of
                Some a \<Rightarrow> Inl a
              | None \<Rightarrow>
                  Inr (x sdiv bw, (max_x - 1) sdiv bw, y sdiv bh, (max_y - 1) sdiv bh)))"

text \<open>
  What the library writes through the frame buffer: the plane of every slice receives
  the samples of the channel of that name, or the fill value when the file has none.
\<close>

definition fill_frameBuffer ::
  "'d exr_backend \<Rightarrow> exr_header \<Rightarrow> (string \<Rightarrow> 'd) \<Rightarrow> (string \<times> nat) list \<Rightarrow> 'd list
    \<Rightarrow> 'd list" where
  "fill_frameBuffer be h samples fb src_image =
    foldl (\<lambda>img (name, nn).
             img[nn := (if name \<in> set (channels h) then samples name else fill_value be)])
          src_image fb"

text \<open>
  The transfer that \<^verbatim>\<open>read\<close> asks of the library (lines 308 to 321): the tiles that the
  box touches, after the assertion, or the scanlines from the top of the box.
\<close>

definition read_call :: "resource \<Rightarrow> bbox \<Rightarrow> abort + exr_call" where
  "read_call r bb =
    (if m_tiled r then
       map_sum id (\<lambda>(x1, x2, y1, y2). ReadTiles x1 x2 y1 y2)
         (tile_range (m_block_size r) bb
            (''DiskImageResourceOpenEXR: bbox corner must fall on ''
             @ ''tile boundary for read of tiled images.''))
     else Inr (ReadPixels (snd (bmin bb))
                 (min (snd (bmin bb) + (height bb - 1)) (rows (m_format r)))))"

text \<open>The transfer that \<^verbatim>\<open>write\<close> asks of the library (lines 358 to 373).\<close>

definition write_call :: "resource \<Rightarrow> bbox \<Rightarrow> abort + exr_call" where
  "write_call r bb =
    (if m_tiled r then
       map_sum id (\<lambda>(x1, x2, y1, y2). WriteTiles x1 x2 y1 y2)
         (tile_range (m_block_size r) bb
            (''DiskImageResourceOpenEXR: bbox corner must fall on ''
             @ ''tile boundary for writing of tiled images.''))
     else Inr (WritePixels (height bb)))"

text \<open>
  The last statement of the \<^verbatim>\<open>try\<close> block of \<^verbatim>\<open>read\<close> (line 323): the staging image is
  converted into \<open>dest\<close>.
\<close>

definition read_finish ::
  "('b, 'd) image_ops \<Rightarrow> 'b \<Rightarrow> 'd list \<Rightarrow> exr_call list
    \<Rightarrow> abort option \<times> 'b \<times> exr_call list" where
  "read_finish ops dest src_image io =
    (let (x, dest) = convert_out ops dest src_image in (map_option Throw_vw x, dest, io))"

text \<open>The \<^verbatim>\<open>try\<close> block of \<^verbatim>\<open>read\<close> (lines 256 to 323), on the file \<open>f\<close> behind the pointer.\<close>

definition read_try ::
  "'d exr_backend \<Rightarrow> ('b, 'd) image_ops \<Rightarrow> exr_file \<Rightarrow> 'b \<Rightarrow> bbox \<Rightarrow> resource
    \<Rightarrow> exr_call list \<Rightarrow> abort option \<times> 'b \<times> exr_call list" where
  "read_try be ops f dest bb r io =
    (let header = file_header f;
         n = planes (m_format r)
     in if n < 0 then (Some (Throw_std ''std::vector''), dest, io)
        else
          (case header_channel_names (nat n) (channels header) of
             None \<Rightarrow> (Some Undefined_behaviour, dest, io)
           | Some channel_names \<Rightarrow>
               (let channel_names = reorder_channel_names n channel_names;
                    src_image = replicate (nat n) (blank ops (width bb) (height bb))
                in case frameBuffer_loop be channel_names [0 ..< nat n] [] of
                     Inl a \<Rightarrow> (Some a, dest, io)
                   | Inr frameBuffer \<Rightarrow>
                       (case read_call r bb of
                          Inl a \<Rightarrow> (Some a, dest, io)
                        | Inr call \<Rightarrow>
                            (case read_answer be f bb call of
                               Inl e \<Rightarrow> (Some (Throw_iex e), dest, io @ [call])
                             | Inr samples \<Rightarrow>
                                 read_finish ops dest
                                   (fill_frameBuffer be header samples frameBuffer src_image)
                                   (io @ [call]))))))"

text \<open>\<^verbatim>\<open>read\<close>: the outcome, the contents of \<open>dest\<close> and the trace; the object is not changed.\<close>

definition read ::
  "'d exr_backend \<Rightarrow> ('b, 'd) image_ops \<Rightarrow> 'b \<Rightarrow> bbox \<Rightarrow> resource \<times> exr_call list
    \<Rightarrow> abort option \<times> 'b \<times> exr_call list" where
  "read be ops dest bb s =
    (let (r, io) = s
     in case m_input_file_ptr r of
          None \<Rightarrow>
            (Some (Throw_vw (LogicErr (''DiskImageResourceOpenEXR: Could not read file. ''
                                        @ ''No file has been opened.''))), dest, io)
        | Some f \<Rightarrow>
            (case read_try be ops f dest bb r io of
               (x, res) \<Rightarrow>
                 (catch_iex (''Failed to open '' @ m_filename r
                              @ '' using the OpenEXR image reader.''
                              @ [CHR 0x0A, CHR 0x09]) x, res)))"

text \<open>
  The \<^verbatim>\<open>try\<close> block of \<^verbatim>\<open>write\<close> (lines 347 to 373), on the file \<open>f\<close> behind the pointer and
  the staging image \<open>block\<close>.
\<close>

definition write_try ::
  "'d exr_backend \<Rightarrow> exr_file \<Rightarrow> (nat \<Rightarrow> 'd) \<Rightarrow> bbox \<Rightarrow> resource \<Rightarrow> exr_call list
    \<Rightarrow> abort option \<times> exr_call list" where
  "write_try be f block bb r io =
    (case frameBuffer_loop be (m_labels r) [0 ..< nat (planes (m_format r))] [] of
       Inl a \<Rightarrow> (Some a, io)
     | Inr frameBuffer \<Rightarrow>
         (case write_call r bb of
            Inl a \<Rightarrow> (Some a, io)
          | Inr call \<Rightarrow>
              (map_option Throw_iex
                 (write_answer be f bb call (map (\<lambda>(name, nn). (name, block nn)) frameBuffer)),
               io @ [call])))"

text \<open>\<^verbatim>\<open>write\<close>: the outcome and the trace; neither the object nor \<open>src\<close> is changed.\<close>

definition write_exr ::
  "'d exr_backend \<Rightarrow> ('b, 'd) image_ops \<Rightarrow> 'b \<Rightarrow> bbox \<Rightarrow> resource \<times> exr_call list
    \<Rightarrow> abort option \<times> exr_call list" where
  "write_exr be ops src bb s =
    (let (r, io) = s
     in case m_output_file_ptr r of
          None \<Rightarrow>
            (Some (Throw_vw (LogicErr (''DiskImageResourceOpenEXR: Could not write file. ''
                                        @ ''No file has been opened.''))), io)
        | Some f \<Rightarrow>
            (case convert_in ops (width bb) (height bb) (planes (m_format r)) src of
               Inl ex \<Rightarrow> (Some (Throw_vw ex), io)
             | Inr block \<Rightarrow>
                 (case write_try be f block bb r io of
                    (x, io') \<Rightarrow>
                      (catch_iex (''DiskImageResourceOpenEXR: Failed to write '' @ m_filename r
                                   @ [CHR ''.'', CHR 0x0A, CHR 0x09]) x, io'))))"

section \<open>The georeference\<close>

text \<open>
  \<^verbatim>\<open>src/vw/Cartography/GeoReference.h\<close> declares the class and its members; the bodies of
  \<^verbatim>\<open>set_transform\<close>, \<^verbatim>\<open>vw_native_transform\<close>, \<^verbatim>\<open>vw_native_inverse_transform\<close>,
  \<^verbatim>\<open>pixel_to_point\<close> and \<^verbatim>\<open>point_to_pixel\<close> are in \<^verbatim>\<open>GeoReference.cc\<close>, which is not part of
  the sources at hand. They are modelled from the specification, and \<^verbatim>\<open>double\<close> is modelled
  as \<open>real\<close>: rounding is outside the model.
\<close>

type_synonym Vector2 = "real \<times> real"

type_synonym Matrix3x3 = "(real \<times> real \<times> real) \<times> (real \<times> real \<times> real) \<times> (real \<times> real \<times> real)"

text \<open>
  Modelled from the spec: the pixel convention (``whether pixel (0,0) is a point sample or
  the center of a unit cell''), kept by the base class \<^verbatim>\<open>GeoReferenceBase\<close>.
\<close>

datatype PixelInterpretation = PixelAsArea | PixelAsPoint

text \<open>The matrix members that the header declares, and the convention of the base class.\<close>

record GeoReference =
  m_pixel_interpretation :: PixelInterpretation
  m_transform :: Matrix3x3
  m_inv_transform :: Matrix3x3
  m_shifted_transform :: Matrix3x3
  m_inv_shifted_transform :: Matrix3x3

text \<open>Modelled from the spec: the product of two 3\<times>3 matrices (the \<open>\<circ>\<close> of ``T \<circ> Shift'').\<close>

definition mat_mul :: "Matrix3x3 \<Rightarrow> Matrix3x3 \<Rightarrow> Matrix3x3" where
  "mat_mul A B =
    (let ((a00, a01, a02), (a10, a11, a12), (a20, a21, a22)) = A;
         ((b00, b01, b02), (b10, b11, b12), (b20, b21, b22)) = B
     in ((a00 * b00 + a01 * b10 + a02 * b20,
          a00 * b01 + a01 * b11 + a02 * b21,
          a00 * b02 + a01 * b12 + a02 * b22),
         (a10 * b00 + a11 * b10 + a12 * b20,
          a10 * b01 + a11 * b11 + a12 * b21,
          a10 * b02 + a11 * b12 + a12 * b22),
         (a20 * b00 + a21 * b10 + a22 * b20,
          a20 * b01 + a21 * b11 + a22 * b21,
          a20 * b02 + a21 * b12 + a22 * b22)))"

text \<open>Modelled from the spec: the determinant, zero exactly for a singular transform.\<close>

definition det3 :: "Matrix3x3 \<Rightarrow> real" where
  "det3 A =
    (let ((a, b, c), (d, e, f), (g, h, i)) = A
     in a * (e * i - f * h) - b * (d * i - f * g) + c * (d * h - e * g))"

text \<open>Modelled from the spec: the inverse of a 3\<times>3 matrix, its adjugate over its determinant.\<close>

definition inverse3 :: "Matrix3x3 \<Rightarrow> Matrix3x3" where
  "inverse3 A =
    (let ((a, b, c), (d, e, f), (g, h, i)) = A; D = det3 A
     in (((e * i - f * h) / D, (c * h - b * i) / D, (b * f - c * e) / D),
         ((f * g - d * i) / D, (a * i - c * g) / D, (c * d - a * f) / D),
         ((d * h - e * g) / D, (b * g - a * h) / D, (a * e - b * d) / D)))"

text \<open>Modelled from the spec: \<open>Shift(dx, dy)\<close>, the translation as a homogeneous matrix.\<close>

definition Shift :: "real \<Rightarrow> real \<Rightarrow> Matrix3x3" where
  "Shift dx dy = ((1, 0, dx), (0, 1, dy), (0, 0, 1))"

text \<open>
  Modelled from the spec: the invariant of a transform, ``bottom row is (0,0,1)'', which
  makes the matrix an affine map.
\<close>

definition affine :: "Matrix3x3 \<Rightarrow> bool" where
  "affine A = (snd (snd A) = (0, 0, 1))"

text \<open>
  Modelled from the spec: applying a transform to a point, the affine map of the upper two
  rows on \<open>(x, y, 1)\<close>.
\<close>

definition apply_transform :: "Matrix3x3 \<Rightarrow> Vector2 \<Rightarrow> Vector2" where
  "apply_transform A p =
    (let ((a, b, c), (d, e, f), bottom) = A; (x, y) = p
     in (a * x + b * y + c, d * x + e * y + f))"

text \<open>
  Modelled from the spec: \<^verbatim>\<open>set_transform(T)\<close> ``replaces the raw transform; recomputes
  inverse and convention-shifted native transform/inverse; fails with an ArgumentError if
  T is singular'', with ``\<open>native = (convention == PixelAsArea) ? T \<circ> Shift(0.5, 0.5) : T\<close>;
  inverse is derived from \<open>native\<close>''.
\<close>

definition set_transform :: "Matrix3x3 \<Rightarrow> GeoReference \<Rightarrow> vw_exception + GeoReference" where
  "set_transform T g =
    (if det3 T = 0 then Inl (ArgumentErr ''GeoReference: singular transform.'')
     else Inr (g\<lparr>m_transform := T,
                 m_inv_transform := inverse3 T,
                 m_shifted_transform := mat_mul T (Shift (1 / 2) (1 / 2)),
                 m_inv_shifted_transform := inverse3 (mat_mul T (Shift (1 / 2) (1 / 2)))\<rparr>))"

text \<open>
  Modelled from the spec: \<^verbatim>\<open>vw_native_transform()\<close>, the transform ``shifted according to
  PixelConvention'' (the header: ``if pixel_interpretation() is set to PixelAsArea, this
  method will adjust the affine transform by 0.5 pixels right and down'').
\<close>

definition vw_native_transform :: "GeoReference \<Rightarrow> Matrix3x3" where
  "vw_native_transform g =
    (if m_pixel_interpretation g = PixelAsArea then m_shifted_transform g
     else m_transform g)"

text \<open>Modelled from the spec: \<^verbatim>\<open>vw_native_inverse_transform()\<close>, the inverse kept with it.\<close>

definition vw_native_inverse_transform :: "GeoReference \<Rightarrow> Matrix3x3" where
  "vw_native_inverse_transform g =
    (if m_pixel_interpretation g = PixelAsArea then m_inv_shifted_transform g
     else m_inv_transform g)"

text \<open>Modelled from the spec: \<^verbatim>\<open>pixel_to_point(p)\<close> ``applies the native transform''.\<close>

definition pixel_to_point :: "GeoReference \<Rightarrow> Vector2 \<Rightarrow> Vector2" where
  "pixel_to_point g pix = apply_transform (vw_native_transform g) pix"

text \<open>Modelled from the spec: \<^verbatim>\<open>point_to_pixel(q)\<close> ``applies its inverse''.\<close>

definition point_to_pixel :: "GeoReference \<Rightarrow> Vector2 \<Rightarrow> Vector2" where
  "point_to_pixel g loc = apply_transform (vw_native_inverse_transform g) loc"

section \<open>Sample objects\<close>

text \<open>
  A library in which the name of a file tells what is behind it or what fails: a tiled
  three-channel file behind every name but those that follow. Samples are named after
  their channel.
\<close>

definition rgb_header :: exr_header where
  "rgb_header = \<lparr>dataWindow = ((0, 0), (511, 511)), channels = [''B'', ''G'', ''R''],
                  tileDescription = Some (256, 256), lineOrder = INCREASING_Y\<rparr>"

definition rgba_header :: exr_header where
  "rgba_header = \<lparr>dataWindow = ((0, 0), (511, 511)), channels = [''A'', ''B'', ''G'', ''R''],
                   tileDescription = None, lineOrder = INCREASING_Y\<rparr>"

definition z_header :: exr_header where
  "z_header = \<lparr>dataWindow = ((0, 0), (511, 511)), channels = [''Z''],
                tileDescription = None, lineOrder = INCREASING_Y\<rparr>"

definition xyz_header :: exr_header where
  "xyz_header = \<lparr>dataWindow = ((0, 0), (511, 511)), channels = [''X'', ''Y'', ''Z''],
                  tileDescription = None, lineOrder = INCREASING_Y\<rparr>"

definition sample_backend :: "string exr_backend" where
  "sample_backend =
    \<lparr>new_InputFile = (\<lambda>name. if name = ''missing.exr'' then Inl ''No such file.''
                              else if name = ''rgba.exr'' then Inr rgba_header
                              else if name = ''z.exr'' then Inr z_header
                              else if name = ''xyz.exr'' then Inr xyz_header
                              else Inr rgb_header),
     new_TiledInputFile = (\<lambda>name. if name = ''torn.exr'' then Inl ''Tile table is damaged.''
                                   else Inr rgb_header),
     new_OutputFile = (\<lambda>name h. if name = ''locked.exr'' then Some ''Permission denied.''
                                 else None),
     new_TiledOutputFile = (\<lambda>name h. if name = ''locked.exr'' then Some ''Permission denied.''
                                      else None),
     read_answer = (\<lambda>f bb call. if file_name f = ''short.exr''
                                 then Inl ''Unexpected end of file.''
                                 else Inr (\<lambda>name. name @ ''-samples'')),
     write_answer = (\<lambda>f bb call fb. if file_name f = ''full.exr'' then Some ''Disk full.''
                                     else None),
     fill_value = ''zeros'',
     missing_attribute_what = ''Cannot find image attribute tiles.'',
     empty_channel_name_what = ''Image channel name cannot be an empty string.'',
     empty_slice_name_what = ''Frame buffer slice name cannot be an empty string.''\<rparr>"

definition sample_ops :: "(string list, string) image_ops" where
  "sample_ops =
    \<lparr>convert_out = (\<lambda>dest src_image. (None, src_image)),
     convert_in = (\<lambda>w h n src. Inr (\<lambda>nn. if nn < length src then src ! nn else ''zeros'')),
     blank = (\<lambda>w h. ''blank'')\<rparr>"

definition sample_num_channels :: "pixel_format_enum \<Rightarrow> nat" where
  "sample_num_channels pf =
    (if pf = VW_PIXEL_RGB then 3 else if pf = VW_PIXEL_RGBA then 4 else 1)"

definition unbound :: resource where
  "unbound = \<lparr>m_filename = [],
              m_format = \<lparr>cols = 0, rows = 0, planes = 0, pixel_format = VW_PIXEL_SCALAR,
                          channel_type = VW_CHANNEL_FLOAT32\<rparr>,
              m_block_size = (0, 0), m_labels = [], m_input_file_ptr = None,
              m_output_file_ptr = None, m_tiled = False\<rparr>"

definition scalar_format :: image_format where
  "scalar_format = \<lparr>cols = 512, rows = 512, planes = 1, pixel_format = VW_PIXEL_SCALAR,
                     channel_type = VW_CHANNEL_OTHER 1\<rparr>"

definition rgb_format :: image_format where
  "rgb_format = \<lparr>cols = 512, rows = 512, planes = 1, pixel_format = VW_PIXEL_RGB,
                  channel_type = VW_CHANNEL_OTHER 1\<rparr>"

definition sample_georef :: GeoReference where
  "sample_georef =
    \<lparr>m_pixel_interpretation = PixelAsArea,
     m_transform = ((1, 0, 0), (0, 1, 0), (0, 0, 1)),
     m_inv_transform = ((1, 0, 0), (0, 1, 0), (0, 0, 1)),
     m_shifted_transform = ((1, 0, 0), (0, 1, 0), (0, 0, 1)),
     m_inv_shifted_transform = ((1, 0, 0), (0, 1, 0), (0, 0, 1))\<rparr>"

text \<open>A scaling, flipping and translating transform, and the georeference that has it.\<close>

definition sample_transform :: Matrix3x3 where
  "sample_transform = ((2, 0, 10), (0, - 2, 20), (0, 0, 1))"

definition moved_georef :: GeoReference where
  "moved_georef = projr (set_transform sample_transform sample_georef)"

text \<open>The request of the format constraint: three planes of RGB pixels.\<close>

definition rgb3_format :: image_format where
  "rgb3_format = \<lparr>cols = 512, rows = 512, planes = 3, pixel_format = VW_PIXEL_RGB,
                   channel_type = VW_CHANNEL_OTHER 1\<rparr>"

text \<open>
  Three planes of a pixel kind that is not the scalar one and, with \<open>sample_num_channels\<close>,
  has a single channel.
\<close>

definition gray3_format :: image_format where
  "gray3_format = \<lparr>cols = 512, rows = 512, planes = 3, pixel_format = VW_PIXEL_OTHER 0,
                    channel_type = VW_CHANNEL_OTHER 1\<rparr>"

text \<open>Resources bound for reading by \<^verbatim>\<open>open\<close>, and for writing by \<^verbatim>\<open>create\<close>.\<close>

definition opened :: resource where
  "opened = fst (snd (open_exr sample_backend 10 ''a.exr'' (unbound, [])))"

definition opened_rgba :: resource where
  "opened_rgba = fst (snd (open_exr sample_backend 10 ''rgba.exr'' (unbound, [])))"

definition opened_z :: resource where
  "opened_z = fst (snd (open_exr sample_backend 10 ''z.exr'' (unbound, [])))"

definition opened_xyz :: resource where
  "opened_xyz = fst (snd (open_exr sample_backend 10 ''xyz.exr'' (unbound, [])))"


definition created :: resource where
  "created = fst (snd (create sample_backend sample_num_channels ''out.exr'' rgb_format
                         (unbound, [])))"

definition created_256 :: resource where
  "created_256 = fst (snd (set_tiled_write sample_backend 256 256 False (created, [])))"



text \<open>Windows at the origins of the tile alignment example, one tile wide and high.\<close>

definition window_0 :: bbox where
  "window_0 = \<lparr>bmin = (0, 0), bmax = (256, 256)\<rparr>"

definition window_256 :: bbox where
  "window_256 = \<lparr>bmin = (256, 0), bmax = (512, 256)\<rparr>"

definition window_100 :: bbox where
  "window_100 = \<lparr>bmin = (100, 0), bmax = (356, 256)\<rparr>"

section \<open>Properties of \<open>open\<close>, \<open>create\<close> and of an unbound resource\<close>


lemma is_NoImplErr_catch_iex: "is_NoImplErr (catch_iex p x) = is_NoImplErr x"
  by (cases "(p, x)" rule: catch_iex.cases) auto

lemma open_header_ptr:
  "open_header be rpb h (r, io) = (x, r', io') \<Longrightarrow> m_input_file_ptr r' = m_input_file_ptr r"
  by (auto simp: open_header_def Let_def split: prod.splits if_splits option.splits)

text \<open>A successful \<^verbatim>\<open>open\<close> leaves the input pointer non-null: the resource is bound.\<close>

lemma open_success_bound:
  assumes "open_exr be rpb filename (r, io) = (None, r', io')"
  shows "m_input_file_ptr r' \<noteq> None"
  using assms
  by (auto simp: open_exr_def open_try_def Let_def split: prod.splits if_splits sum.splits
      dest!: open_header_ptr)

lemma open_header_planes:
  "open_header be rpb h (r, io) = (None, r', io') \<Longrightarrow>
     planes (m_format r') = int (length (channels h)) \<and> m_input_file_ptr r' = m_input_file_ptr r"
  by (auto simp: open_header_def Let_def split: prod.splits if_splits option.splits)

lemma catch_iex_None: "catch_iex p x = None \<Longrightarrow> x = None"
  by (cases "(p, x)" rule: catch_iex.cases) auto

text \<open>
  After a successful \<^verbatim>\<open>open\<close> the plane count is the number of channels of the file behind
  the input pointer.
\<close>

lemma open_success_planes:
  assumes "open_exr be rpb filename (r, io) = (None, r', io')"
  shows "\<exists>f. m_input_file_ptr r' = Some f
           \<and> planes (m_format r') = int (length (channels (file_header f)))"
proof -
  obtain x where t: "open_try be rpb filename (r, io) = (x, r', io')"
    using assms by (auto simp: open_exr_def split: prod.splits)
  with assms have "x = None"
    by (auto simp: open_exr_def dest: catch_iex_None)
  with t show ?thesis
    by (auto simp: open_try_def Let_def split: if_splits sum.splits dest!: open_header_planes)
qed

lemma opened_eq:
  "opened = \<lparr>m_filename = ''a.exr'',
      m_format = \<lparr>cols = 512, rows = 512, planes = 3, pixel_format = VW_PIXEL_SCALAR,
                  channel_type = VW_CHANNEL_FLOAT32\<rparr>,
      m_block_size = (256, 256), m_labels = [],
      m_input_file_ptr = Some \<lparr>file_name = ''a.exr'', file_header = rgb_header\<rparr>,
      m_output_file_ptr = None, m_tiled = True\<rparr>"
  by (simp add: opened_def open_exr_def open_try_def open_header_def sample_backend_def
      unbound_def hasTileDescription_def rgb_header_def Let_def)

text \<open>
  C1, as the code has it. On a resource whose input pointer is set, \<^verbatim>\<open>open\<close> raises
  \<^verbatim>\<open>IOErr\<close> with the message ``Disk image resources do not yet support reuse.'', and not
  \<^verbatim>\<open>LogicErr\<close>. The input file it is bound to, the output pointer, the format, the block
  size, the layout flag and the labels are as before, and the library is not called.
\<close>

theorem open_again_IOErr:
  assumes "m_input_file_ptr r \<noteq> None"
    and "open_exr be rpb filename (r, io) = (x, r', io')"
  shows "x = Some (Throw_vw (IOErr ''Disk image resources do not yet support reuse.''))
       \<and> m_input_file_ptr r' = m_input_file_ptr r
       \<and> m_output_file_ptr r' = m_output_file_ptr r
       \<and> m_format r' = m_format r \<and> m_block_size r' = m_block_size r
       \<and> m_tiled r' = m_tiled r \<and> m_labels r' = m_labels r \<and> io' = io"
  using assms by (auto simp: open_exr_def open_try_def Let_def)

theorem open_again_IOErr_witness:
  "m_input_file_ptr opened \<noteq> None
   \<and> fst (open_exr sample_backend 10 ''b.exr'' (opened, []))
       = Some (Throw_vw (IOErr ''Disk image resources do not yet support reuse.''))
   \<and> m_input_file_ptr (fst (snd (open_exr sample_backend 10 ''b.exr'' (opened, []))))
       = Some \<lparr>file_name = ''a.exr'', file_header = rgb_header\<rparr>"
proof -
  have b: "m_input_file_ptr opened \<noteq> None"
    by (simp add: opened_eq)
  obtain x r' io' where e: "open_exr sample_backend 10 ''b.exr'' (opened, []) = (x, r', io')"
    by (cases "open_exr sample_backend 10 ''b.exr'' (opened, [])")
  from open_again_IOErr [OF b e] show ?thesis
    using b e by (simp add: opened_eq)
qed

text \<open>
  C1 as the specification words it fails: the second \<^verbatim>\<open>open\<close> on the resource that
  \<^verbatim>\<open>open\<close> bound to \<^verbatim>\<open>a.exr\<close> does not raise \<^verbatim>\<open>LogicErr\<close>.
\<close>

theorem open_again_not_LogicErr:
  "\<not> is_LogicErr (fst (open_exr sample_backend 10 ''b.exr'' (opened, [])))"
  by (simp add: opened_eq open_exr_def open_try_def Let_def)

text \<open>
  C7. On a resource with neither an input nor an output file, \<^verbatim>\<open>read\<close> and \<^verbatim>\<open>write\<close>
  raise \<^verbatim>\<open>LogicErr\<close>; the destination buffer and the trace of library calls are as before
  (the model of \<^verbatim>\<open>read\<close> and \<^verbatim>\<open>write\<close> has no other output: they assign no member).
\<close>

theorem unbound_read_write_LogicErr:
  assumes "m_input_file_ptr r = None" "m_output_file_ptr r = None"
  shows "is_LogicErr (fst (read be ops dest bb (r, io)))
       \<and> snd (read be ops dest bb (r, io)) = (dest, io)
       \<and> is_LogicErr (fst (write_exr be ops src bb (r, io)))
       \<and> snd (write_exr be ops src bb (r, io)) = io"
  using assms by (simp add: read_def write_exr_def)

theorem unbound_read_write_LogicErr_witness:
  "m_input_file_ptr unbound = None \<and> m_output_file_ptr unbound = None
   \<and> is_LogicErr (fst (read sample_backend sample_ops [''old'']
                          \<lparr>bmin = (0, 0), bmax = (256, 256)\<rparr> (unbound, [])))
   \<and> snd (read sample_backend sample_ops [''old'']
             \<lparr>bmin = (0, 0), bmax = (256, 256)\<rparr> (unbound, [])) = ([''old''], [])
   \<and> is_LogicErr (fst (write_exr sample_backend sample_ops [''new'']
                          \<lparr>bmin = (0, 0), bmax = (256, 256)\<rparr> (unbound, [])))
   \<and> snd (write_exr sample_backend sample_ops [''new'']
             \<lparr>bmin = (0, 0), bmax = (256, 256)\<rparr> (unbound, [])) = []"
proof -
  have a: "m_input_file_ptr unbound = None" and b: "m_output_file_ptr unbound = None"
    by (simp_all add: unbound_def)
  from unbound_read_write_LogicErr [OF a b, where be = sample_backend and ops = sample_ops
      and dest = "[''old'']" and src = "[''new'']" and io = "[]"
      and bb = "\<lparr>bmin = (0, 0), bmax = (256, 256)\<rparr>"]
  show ?thesis using a b by simp
qed

text \<open>The labelling loop raises neither \<^verbatim>\<open>NoImplErr\<close> nor \<^verbatim>\<open>LogicErr\<close> and keeps the length.\<close>

lemma label_loop_outcome:
  "label_loop be pf ns labels chans = (x, labels', chans') \<Longrightarrow>
     \<not> is_NoImplErr x \<and> \<not> is_LogicErr x \<and> length labels' = length labels"
proof (induction ns arbitrary: labels chans)
  case Nil
  then show ?case by simp
next
  case (Cons nn ns)
  then show ?case
    by (auto simp: openexr_channel_string_of_pixel_type_def Let_def
        split: sum.splits if_splits)
qed

lemma set_tiled_write_try_keeps:
  assumes "set_tiled_write_try be rto (r, io) = (x, r', io')"
  shows "m_format r' = m_format r \<and> m_block_size r' = m_block_size r
       \<and> m_tiled r' = m_tiled r \<and> m_input_file_ptr r' = m_input_file_ptr r
       \<and> m_filename r' = m_filename r \<and> \<not> is_NoImplErr x"
proof -
  obtain y labels chans where
    l: "label_loop be (pixel_format (m_format r)) [0 ..< nat (planes (m_format r))]
          (m_labels r) (channels (Header (cols (m_format r)) (rows (m_format r))))
        = (y, labels, chans)"
    using prod_cases3 by blast
  from label_loop_outcome [OF l] have "\<not> is_NoImplErr y" by simp
  with assms l show ?thesis
    by (auto simp: set_tiled_write_try_def Let_def split: option.splits)
qed

lemma set_tiled_write_keeps_format:
  assumes "set_tiled_write be tw th rto (r, io) = (x, r', io')"
  shows "m_format r' = m_format r \<and> \<not> is_NoImplErr x"
proof -
  obtain r1 io1 where b: "set_tiled_write_begin tw th (r, io) = (r1, io1)"
    by (cases "set_tiled_write_begin tw th (r, io)")
  then have f: "m_format r1 = m_format r"
    by (auto simp: set_tiled_write_begin_def Let_def)
  obtain y r2 io2 where t: "set_tiled_write_try be rto (r1, io1) = (y, r2, io2)"
    by (cases "set_tiled_write_try be rto (r1, io1)")
  from assms b t have "r' = r2"
    and "x = catch_iex (''DiskImageResourceOpenEXR: Failed to create '' @ m_filename r
                         @ [CHR ''.'', CHR 0x0A, CHR 0x09]) y"
    by (auto simp: set_tiled_write_def)
  with set_tiled_write_try_keeps [OF t] f show ?thesis
    by (simp add: is_NoImplErr_catch_iex)
qed

lemma label_loop_labels:
  "label_loop be pf ns labels chans = (None, labels', chans') \<Longrightarrow>
     length labels' = length labels
     \<and> (\<forall>i < length labels. labels ! i \<noteq> [] \<longrightarrow> labels' ! i \<noteq> [])
     \<and> (\<forall>nn \<in> set ns. nn < length labels \<and> labels' ! nn \<noteq> [])"
proof (induction ns arbitrary: labels chans)
  case Nil
  then show ?case by simp
next
  case (Cons nn ns)
  from Cons.prems obtain name where
    n: "openexr_channel_string_of_pixel_type pf (int nn) = Inr name"
    and l: "nn < length labels" and e: "name \<noteq> []"
    and r: "label_loop be pf ns (labels[nn := name]) (ChannelList_insert name chans)
            = (None, labels', chans')"
    by (auto split: sum.splits if_splits)
  from Cons.IH [OF r] have
    1: "length labels' = length labels"
    and 2: "\<forall>i < length labels. (labels[nn := name]) ! i \<noteq> [] \<longrightarrow> labels' ! i \<noteq> []"
    and 3: "\<forall>m \<in> set ns. m < length labels \<and> labels' ! m \<noteq> []"
    by simp_all
  from 2 l e have 4: "labels' ! nn \<noteq> []" by auto
  have 5: "\<forall>i < length labels. labels ! i \<noteq> [] \<longrightarrow> labels' ! i \<noteq> []"
  proof (intro allI impI)
    fix i assume "i < length labels" "labels ! i \<noteq> []"
    with 2 e show "labels' ! i \<noteq> []"
      by (cases "i = nn") auto
  qed
  from 1 3 4 5 l show ?case by simp
qed

lemma set_tiled_write_try_success:
  assumes "set_tiled_write_try be rto (r, io) = (None, r', io')"
  shows "m_output_file_ptr r' \<noteq> None
       \<and> length (m_labels r') = length (m_labels r)
       \<and> (\<forall>nn < nat (planes (m_format r)). nn < length (m_labels r) \<and> m_labels r' ! nn \<noteq> [])"
proof -
  obtain y labels chans where
    l: "label_loop be (pixel_format (m_format r)) [0 ..< nat (planes (m_format r))]
          (m_labels r) (channels (Header (cols (m_format r)) (rows (m_format r))))
        = (y, labels, chans)"
    using prod_cases3 by blast
  with assms have y: "y = None" and m: "m_labels r' = labels" and o: "m_output_file_ptr r' \<noteq> None"
    by (auto simp: set_tiled_write_try_def Let_def split: option.splits)
  from label_loop_labels [OF l [unfolded y]] m o show ?thesis by auto
qed

text \<open>
  After a successful \<^verbatim>\<open>create\<close> the resource is bound for writing, tiled by 2048, and has
  a non-empty label for each of its planes.
\<close>

lemma create_success_write_bound:
  assumes "create be num_channels filename format (r, io) = (None, r', io')"
  shows "m_output_file_ptr r' \<noteq> None \<and> m_tiled r' \<and> m_block_size r' = (2048, 2048)
       \<and> nat (planes (m_format r')) \<le> length (m_labels r')
       \<and> (\<forall>nn < nat (planes (m_format r')). m_labels r' ! nn \<noteq> [])"
proof -
  obtain r1 io1 where b: "create_begin num_channels filename format (r, io) = (r1, io1)"
    by (cases "create_begin num_channels filename format (r, io)")
  obtain r2 io2 where b2: "set_tiled_write_begin 2048 2048 (r1, io1) = (r2, io2)"
    by (cases "set_tiled_write_begin 2048 2048 (r1, io1)")
  from b have len: "length (m_labels r1) = nat (planes (m_format r1))"
    by (auto simp: create_begin_def Let_def resize_def)
  from b2 have r2: "m_labels r2 = m_labels r1" "m_format r2 = m_format r1" "m_tiled r2"
    "m_block_size r2 = (2048, 2048)"
    by (auto simp: set_tiled_write_begin_def Let_def)
  from assms b have s: "set_tiled_write be 2048 2048 False (r1, io1) = (None, r', io')"
    by (auto simp: create_def VW_ASSERT_def split: if_splits)
  then obtain y where t: "set_tiled_write_try be False (r2, io2) = (y, r', io')"
    using b2 by (auto simp: set_tiled_write_def split: prod.splits)
  with s b2 have "y = None"
    by (auto simp: set_tiled_write_def dest: catch_iex_None)
  with t have t': "set_tiled_write_try be False (r2, io2) = (None, r', io')" by simp
  from set_tiled_write_try_success [OF t'] set_tiled_write_try_keeps [OF t'] len r2
  show ?thesis by auto
qed

text \<open>
  C5. When the format passes the assertion of \<^verbatim>\<open>create\<close> (one plane, or scalar pixels),
  the plane count of the resource after \<^verbatim>\<open>create\<close> is the larger of the requested plane
  count and the number of channels of the pixel format, whatever the library answers.
\<close>

theorem create_planes:
  assumes "planes format = 1 \<or> pixel_format format = VW_PIXEL_SCALAR"
  shows "planes (m_format (fst (snd (create be num_channels filename format (r, io)))))
         = max (planes format) (int (num_channels (pixel_format format)))"
proof -
  obtain r1 io1 where b: "create_begin num_channels filename format (r, io) = (r1, io1)"
    by (cases "create_begin num_channels filename format (r, io)")
  then have p: "planes (m_format r1)
                = max (planes format) (int (num_channels (pixel_format format)))"
    by (auto simp: create_begin_def Let_def)
  obtain x r' io' where s: "set_tiled_write be 2048 2048 False (r1, io1) = (x, r', io')"
    by (cases "set_tiled_write be 2048 2048 False (r1, io1)")
  from assms b s have "create be num_channels filename format (r, io) = (x, r', io')"
    by (simp add: create_def VW_ASSERT_def)
  with set_tiled_write_keeps_format [OF s] p show ?thesis by simp
qed

theorem create_planes_witness:
  "(planes rgb_format = 1 \<or> pixel_format rgb_format = VW_PIXEL_SCALAR)
   \<and> planes (m_format (fst (snd (create sample_backend sample_num_channels ''out.exr''
                                    rgb_format (unbound, []))))) = 3"
  using create_planes [of rgb_format sample_backend sample_num_channels "''out.exr''"
      unbound "[]"]
  by (simp add: rgb_format_def sample_num_channels_def)

text \<open>
  C6, as the code has it. For a format with at least one plane, \<^verbatim>\<open>create\<close> raises
  \<^verbatim>\<open>NoImplErr\<close> exactly when the pixel format is not \<^verbatim>\<open>VW_PIXEL_SCALAR\<close>, whatever the
  number of its channels, and there is more than one plane; the resource and the trace of
  library calls are then as before.
\<close>

theorem create_NoImplErr_iff:
  assumes "1 \<le> planes format"
  shows "(is_NoImplErr (fst (create be num_channels filename format (r, io)))
           \<longleftrightarrow> pixel_format format \<noteq> VW_PIXEL_SCALAR \<and> 1 < planes format)
       \<and> (is_NoImplErr (fst (create be num_channels filename format (r, io)))
           \<longrightarrow> snd (create be num_channels filename format (r, io)) = (r, io))"
proof (cases "planes format = 1 \<or> pixel_format format = VW_PIXEL_SCALAR")
  case True
  obtain r1 io1 where b: "create_begin num_channels filename format (r, io) = (r1, io1)"
    by (cases "create_begin num_channels filename format (r, io)")
  obtain x r' io' where s: "set_tiled_write be 2048 2048 False (r1, io1) = (x, r', io')"
    by (cases "set_tiled_write be 2048 2048 False (r1, io1)")
  from True b s have "create be num_channels filename format (r, io) = (x, r', io')"
    by (simp add: create_def VW_ASSERT_def)
  with set_tiled_write_keeps_format [OF s] True show ?thesis by auto
next
  case False
  then have "create be num_channels filename format (r, io) =
     (Some (Throw_vw (NoImplErr (''DiskImageResourceOpenEXR: Cannot create '' @ filename
               @ [CHR 0x0A, CHR 0x09]
               @ ''The image cannot have both multiple channels and multiple planes.''
               @ [CHR 0x0A]))), r, io)"
    by (simp add: create_def VW_ASSERT_def)
  with False assms show ?thesis by auto
qed

theorem create_NoImplErr_iff_witness:
  "1 \<le> planes rgb3_format
   \<and> is_NoImplErr (fst (create sample_backend sample_num_channels ''out.exr'' rgb3_format
                          (unbound, [])))
   \<and> snd (create sample_backend sample_num_channels ''out.exr'' rgb3_format (unbound, []))
       = (unbound, [])
   \<and> \<not> is_NoImplErr (fst (create sample_backend sample_num_channels ''out.exr'' rgb_format
                            (unbound, [])))"
  using create_NoImplErr_iff [of rgb3_format sample_backend sample_num_channels "''out.exr''"
      unbound "[]"]
    create_NoImplErr_iff [of rgb_format sample_backend sample_num_channels "''out.exr''"
      unbound "[]"]
  by (simp add: rgb3_format_def rgb_format_def)

text \<open>
  C6 as the specification words it fails: three planes of a pixel kind with a single
  channel are refused with \<^verbatim>\<open>NoImplErr\<close>, although the kind is not a multi-channel one.
\<close>

theorem create_single_channel_NoImplErr:
  "is_NoImplErr (fst (create sample_backend sample_num_channels ''out.exr'' gray3_format
                        (unbound, [])))
   \<and> sample_num_channels (pixel_format gray3_format) = 1"
  by (simp add: create_def VW_ASSERT_def gray3_format_def sample_num_channels_def)

section \<open>Properties of \<open>read\<close>: the order of the planes\<close>

text \<open>The remainder of C++ is zero exactly for a multiple of the divisor.\<close>

lemma smod_zero_iff: "(a smod b = 0) = (b dvd a)" for a b :: int
  by (auto simp: signed_modulo_int_def mod_eq_0_iff_dvd sgn_if)

lemma update_fresh: "k \<notin> fst ` set al \<Longrightarrow> AList.update k v al = al @ [(k, v)]"
  by (induction al) auto

lemma frameBuffer_loop_ok:
  assumes "\<forall>nn \<in> set idx. nn < length names \<and> names ! nn \<noteq> []"
    and "distinct (map ((!) names) idx)"
    and "\<forall>nn \<in> set idx. names ! nn \<notin> fst ` set fb"
  shows "frameBuffer_loop be names idx fb = Inr (fb @ map (\<lambda>nn. (names ! nn, nn)) idx)"
  using assms
proof (induction idx arbitrary: fb)
  case Nil
  then show ?case by simp
next
  case (Cons nn idx)
  have u: "AList.update (names ! nn) nn fb = fb @ [(names ! nn, nn)]"
    using Cons.prems by (simp add: update_fresh)
  have "frameBuffer_loop be names idx (fb @ [(names ! nn, nn)])
        = Inr ((fb @ [(names ! nn, nn)]) @ map (\<lambda>nn. (names ! nn, nn)) idx)"
  proof (intro Cons.IH)
    show "\<forall>nn \<in> set idx. nn < length names \<and> names ! nn \<noteq> []"
      using Cons.prems(1) by simp
    show "distinct (map ((!) names) idx)"
      using Cons.prems(2) by simp
    show "\<forall>nna \<in> set idx. names ! nna \<notin> fst ` set (fb @ [(names ! nn, nn)])"
    proof
      fix nna assume a: "nna \<in> set idx"
      with Cons.prems(2) have "names ! nna \<noteq> names ! nn" by (force simp: image_iff)
      moreover from a Cons.prems(3) have "names ! nna \<notin> fst ` set fb" by simp
      ultimately show "names ! nna \<notin> fst ` set (fb @ [(names ! nn, nn)])" by auto
    qed
  qed
  with u Cons.prems show ?case by simp
qed

lemma frameBuffer_loop_distinct:
  assumes "distinct names" "[] \<notin> set names"
  shows "frameBuffer_loop be names [0 ..< length names] [] = Inr (map (\<lambda>nn. (names ! nn, nn)) [0 ..< length names])"
proof -
  have "map ((!) names) [0 ..< length names] = names" by (rule map_nth)
  with assms have "frameBuffer_loop be names [0 ..< length names] []
     = Inr ([] @ map (\<lambda>nn. (names ! nn, nn)) [0 ..< length names])"
    by (intro frameBuffer_loop_ok) (auto simp: in_set_conv_nth)
  then show ?thesis by simp
qed

lemma frameBuffer_loop_no_vw:
  "frameBuffer_loop be names idx fb = Inl a \<Longrightarrow> a = Undefined_behaviour \<or> a = Throw_iex (empty_slice_name_what be)"
  by (induction idx arbitrary: fb) (auto split: if_splits)

lemma frameBuffer_loop_nonempty:
  assumes "\<forall>nn \<in> set idx. nn < length names \<and> names ! nn \<noteq> []"
  shows "\<exists>fb'. frameBuffer_loop be names idx fb = Inr fb'"
  using assms by (induction idx arbitrary: fb) auto

lemma fill_upto:
  assumes "k \<le> length names" "length img = length names"
  shows "foldl (\<lambda>img (name, nn). img[nn := g name]) img (map (\<lambda>nn. (names ! nn, nn)) [0 ..< k])
         = map g (take k names) @ drop k img"
  using assms
proof (induction k)
  case 0
  then show ?case by simp
next
  case (Suc k)
  then have "k < length names" by simp
  with Suc show ?case
    by (simp add: take_Suc_conv_app_nth list_update_append upd_conv_take_nth_drop)
qed

lemma fill_frameBuffer_all:
  assumes "length img = length names"
  shows "fill_frameBuffer be h samples (map (\<lambda>nn. (names ! nn, nn)) [0 ..< length names]) img
         = map (\<lambda>name. if name \<in> set (channels h) then samples name else fill_value be) names"
  using fill_upto [of "length names" names img "\<lambda>name. if name \<in> set (channels h) then samples name else fill_value be"] assms
  by (simp add: fill_frameBuffer_def)


lemma list3: "length xs = 3 \<Longrightarrow> \<exists>a b c. xs = [a, b, c]"
  by (cases xs; cases "tl xs"; cases "tl (tl xs)"; cases "tl (tl (tl xs))") auto

lemma list4: "length xs = 4 \<Longrightarrow> \<exists>a b c d. xs = [a, b, c, d]"
  by (cases xs; cases "tl xs"; cases "tl (tl xs)"; cases "tl (tl (tl xs))";
      cases "tl (tl (tl (tl xs)))") auto

lemma reorder_3:
  assumes "length cs = 3"
  shows "reorder_channel_names 3 cs =
    (if ''R'' \<in> set cs \<and> ''G'' \<in> set cs \<and> ''B'' \<in> set cs then [''R'', ''G'', ''B''] else cs)"
proof -
  from list3 [OF assms] obtain a b c where "cs = [a, b, c]" by blast
  then show ?thesis by (simp add: reorder_channel_names_def)
qed

lemma reorder_4:
  assumes "length cs = 4"
  shows "reorder_channel_names 4 cs =
    (if ''R'' \<in> set cs \<and> ''G'' \<in> set cs \<and> ''B'' \<in> set cs \<and> ''A'' \<in> set cs
     then [''R'', ''G'', ''B'', ''A''] else cs)"
proof -
  from list4 [OF assms] obtain a b c d where "cs = [a, b, c, d]" by blast
  then show ?thesis by (simp add: reorder_channel_names_def)
qed

lemma reorder_other:
  "n \<noteq> 3 \<Longrightarrow> n \<noteq> 4 \<Longrightarrow> reorder_channel_names n cs = cs"
  by (simp add: reorder_channel_names_def)

lemma reorder_props:
  assumes "distinct cs" "[] \<notin> set cs"
  shows "distinct (reorder_channel_names (int (length cs)) cs)
       \<and> [] \<notin> set (reorder_channel_names (int (length cs)) cs)
       \<and> length (reorder_channel_names (int (length cs)) cs) = length cs
       \<and> set (reorder_channel_names (int (length cs)) cs) \<subseteq> set cs"
proof -
  consider "length cs = 3" | "length cs = 4" | "length cs \<noteq> 3 \<and> length cs \<noteq> 4" by blast
  then show ?thesis
  proof cases
    case 1
    with assms reorder_3 [OF 1] show ?thesis by auto
  next
    case 2
    with assms reorder_4 [OF 2] show ?thesis by auto
  next
    case 3
    then have "reorder_channel_names (int (length cs)) cs = cs"
      by (intro reorder_other) auto
    with assms show ?thesis by simp
  qed
qed

lemma catch_iex_vw: "catch_iex p (map_option Throw_vw x) = map_option Throw_vw x"
  by (cases x) auto

lemma read_bound_result:
  assumes f: "m_input_file_ptr r = Some f"
    and cs: "channels (file_header f) = cs"
    and n: "planes (m_format r) = int (length cs)"
    and d: "distinct cs" and ne: "[] \<notin> set cs"
    and call: "read_call r bb = Inr call"
    and ans: "read_answer be f bb call = Inr samples"
  shows "read be ops dest bb (r, io) =
    read_finish ops dest (map samples (reorder_channel_names (int (length cs)) cs)) (io @ [call])"
proof -
  let ?names = "reorder_channel_names (int (length cs)) cs"
  note rp = reorder_props [OF d ne]
  have h: "header_channel_names (nat (int (length cs))) cs = Some cs"
    by (simp add: header_channel_names_def)
  have fb: "frameBuffer_loop be ?names [0 ..< length cs] [] = Inr (map (\<lambda>nn. (?names ! nn, nn)) [0 ..< length cs])"
    using frameBuffer_loop_distinct [of ?names be] rp by simp
  have fill: "fill_frameBuffer be (file_header f) samples (map (\<lambda>nn. (?names ! nn, nn)) [0 ..< length cs])
          (replicate (length cs) (blank ops (width bb) (height bb)))
        = map samples ?names"
  proof -
    have "fill_frameBuffer be (file_header f) samples (map (\<lambda>nn. (?names ! nn, nn)) [0 ..< length ?names])
          (replicate (length cs) (blank ops (width bb) (height bb)))
        = map (\<lambda>name. if name \<in> set (channels (file_header f)) then samples name else fill_value be) ?names"
      by (rule fill_frameBuffer_all) (simp add: rp)
    also have "\<dots> = map samples ?names"
      using rp cs by (intro map_cong) auto
    finally show ?thesis using rp by simp
  qed
  obtain x res where rf: "read_finish ops dest (map samples ?names) (io @ [call]) = (x, res)"
    by (cases "read_finish ops dest (map samples ?names) (io @ [call])")
  then have "catch_iex p x = x" for p
    by (auto simp: read_finish_def catch_iex_vw split: prod.splits)
  with f cs n call ans h fb fill rf show ?thesis
    by (simp add: read_def read_try_def Let_def)
qed

text \<open>
  C4. A resource bound for reading whose plane count is the number of channels of its
  file (as \<^verbatim>\<open>open\<close> sets it), the names being distinct and not empty as in a channel list,
  reads a window for which the library answers with samples. With three planes and the
  names R, G and B reported in any order, the staging image converted into the
  destination has the samples of R in plane 0, of G in plane 1 and of B in plane 2; with
  four planes and the names R, G, B and A the planes are R, G, B, A; with any other plane
  count plane \<open>i\<close> has the samples of the \<open>i\<close>-th reported name.
\<close>

theorem read_canonical_order:
  assumes "m_input_file_ptr r = Some f"
    and "channels (file_header f) = cs"
    and "planes (m_format r) = int (length cs)"
    and "distinct cs" and "[] \<notin> set cs"
    and "read_call r bb = Inr call"
    and "read_answer be f bb call = Inr samples"
  shows "(length cs = 3 \<and> ''R'' \<in> set cs \<and> ''G'' \<in> set cs \<and> ''B'' \<in> set cs \<longrightarrow>
            read be ops dest bb (r, io) =
              read_finish ops dest [samples ''R'', samples ''G'', samples ''B''] (io @ [call]))
       \<and> (length cs = 4 \<and> ''R'' \<in> set cs \<and> ''G'' \<in> set cs \<and> ''B'' \<in> set cs \<and> ''A'' \<in> set cs \<longrightarrow>
            read be ops dest bb (r, io) =
              read_finish ops dest [samples ''R'', samples ''G'', samples ''B'', samples ''A'']
                (io @ [call]))
       \<and> (length cs \<noteq> 3 \<and> length cs \<noteq> 4 \<longrightarrow>
            read be ops dest bb (r, io) = read_finish ops dest (map samples cs) (io @ [call]))"
proof (intro conjI impI)
  assume a: "length cs = 3 \<and> ''R'' \<in> set cs \<and> ''G'' \<in> set cs \<and> ''B'' \<in> set cs"
  then have "reorder_channel_names (int (length cs)) cs = [''R'', ''G'', ''B'']"
    using reorder_3 [of cs] by simp
  with read_bound_result [OF assms]
  show "read be ops dest bb (r, io) =
          read_finish ops dest [samples ''R'', samples ''G'', samples ''B''] (io @ [call])"
    by simp
next
  assume a: "length cs = 4 \<and> ''R'' \<in> set cs \<and> ''G'' \<in> set cs \<and> ''B'' \<in> set cs \<and> ''A'' \<in> set cs"
  then have "reorder_channel_names (int (length cs)) cs = [''R'', ''G'', ''B'', ''A'']"
    using reorder_4 [of cs] by simp
  with read_bound_result [OF assms]
  show "read be ops dest bb (r, io) =
          read_finish ops dest [samples ''R'', samples ''G'', samples ''B'', samples ''A''] (io @ [call])"
    by simp
next
  assume "length cs \<noteq> 3 \<and> length cs \<noteq> 4"
  then have "reorder_channel_names (int (length cs)) cs = cs"
    by (intro reorder_other) auto
  with read_bound_result [OF assms]
  show "read be ops dest bb (r, io) = read_finish ops dest (map samples cs) (io @ [call])"
    by simp
qed

text \<open>
  C10. Under the same conditions, with three planes whose names do not include all of R,
  G and B, or four planes whose names do not include all of R, G, B and A, no reordering
  takes place: plane \<open>i\<close> of the staging image has the samples of the \<open>i\<close>-th reported name.
\<close>

theorem read_backend_order:
  assumes "m_input_file_ptr r = Some f"
    and "channels (file_header f) = cs"
    and "planes (m_format r) = int (length cs)"
    and "distinct cs" and "[] \<notin> set cs"
    and "read_call r bb = Inr call"
    and "read_answer be f bb call = Inr samples"
    and "length cs = 3 \<and> \<not> (''R'' \<in> set cs \<and> ''G'' \<in> set cs \<and> ''B'' \<in> set cs)
       \<or> length cs = 4 \<and> \<not> (''R'' \<in> set cs \<and> ''G'' \<in> set cs \<and> ''B'' \<in> set cs \<and> ''A'' \<in> set cs)"
  shows "read be ops dest bb (r, io) = read_finish ops dest (map samples cs) (io @ [call])"
proof -
  from assms(8) have "reorder_channel_names (int (length cs)) cs = cs"
    using reorder_3 [of cs] reorder_4 [of cs] by auto
  with read_bound_result [OF assms(1-7)] show ?thesis by simp
qed

lemma opened_rgba_eq:
  "opened_rgba = \<lparr>m_filename = ''rgba.exr'',
      m_format = \<lparr>cols = 512, rows = 512, planes = 4, pixel_format = VW_PIXEL_SCALAR,
                  channel_type = VW_CHANNEL_FLOAT32\<rparr>,
      m_block_size = (512, 10), m_labels = [],
      m_input_file_ptr = Some \<lparr>file_name = ''rgba.exr'', file_header = rgba_header\<rparr>,
      m_output_file_ptr = None, m_tiled = False\<rparr>"
  by (simp add: opened_rgba_def open_exr_def open_try_def open_header_def sample_backend_def
      unbound_def hasTileDescription_def rgba_header_def Let_def)

lemma opened_z_eq:
  "opened_z = \<lparr>m_filename = ''z.exr'',
      m_format = \<lparr>cols = 512, rows = 512, planes = 1, pixel_format = VW_PIXEL_SCALAR,
                  channel_type = VW_CHANNEL_FLOAT32\<rparr>,
      m_block_size = (512, 10), m_labels = [],
      m_input_file_ptr = Some \<lparr>file_name = ''z.exr'', file_header = z_header\<rparr>,
      m_output_file_ptr = None, m_tiled = False\<rparr>"
  by (simp add: opened_z_def open_exr_def open_try_def open_header_def sample_backend_def
      unbound_def hasTileDescription_def z_header_def Let_def)

lemma opened_xyz_eq:
  "opened_xyz = \<lparr>m_filename = ''xyz.exr'',
      m_format = \<lparr>cols = 512, rows = 512, planes = 3, pixel_format = VW_PIXEL_SCALAR,
                  channel_type = VW_CHANNEL_FLOAT32\<rparr>,
      m_block_size = (512, 10), m_labels = [],
      m_input_file_ptr = Some \<lparr>file_name = ''xyz.exr'', file_header = xyz_header\<rparr>,
      m_output_file_ptr = None, m_tiled = False\<rparr>"
  by (simp add: opened_xyz_def open_exr_def open_try_def open_header_def sample_backend_def
      unbound_def hasTileDescription_def xyz_header_def Let_def)

lemma read_call_opened: "read_call opened window_0 = Inr (ReadTiles 0 0 0 0)"
  by (simp add: read_call_def opened_eq window_0_def tile_range_def VW_ASSERT_def signed_divide_int_def)

lemma read_call_scan: "\<not> m_tiled r \<Longrightarrow> rows (m_format r) = 512 \<Longrightarrow> read_call r window_0 = Inr (ReadPixels 0 255)"
  by (simp add: read_call_def window_0_def height_def)

theorem read_canonical_order_witness:
  "read sample_backend sample_ops [] window_0 (opened, [])
     = (None, [''R-samples'', ''G-samples'', ''B-samples''], [ReadTiles 0 0 0 0])
   \<and> read sample_backend sample_ops [] window_0 (opened_rgba, [])
     = (None, [''R-samples'', ''G-samples'', ''B-samples'', ''A-samples''], [ReadPixels 0 255])
   \<and> read sample_backend sample_ops [] window_0 (opened_z, [])
     = (None, [''Z-samples''], [ReadPixels 0 255])"
proof -
  let ?s = "\<lambda>name. name @ ''-samples''"
  have a: "read_answer sample_backend f bb call = Inr ?s" if "file_name f \<noteq> ''short.exr''" for f bb call
    using that by (simp add: sample_backend_def)
  have 1: "read sample_backend sample_ops [] window_0 (opened, [])
     = read_finish sample_ops [] [?s ''R'', ?s ''G'', ?s ''B''] ([] @ [ReadTiles 0 0 0 0])"
    using read_canonical_order [of opened "\<lparr>file_name = ''a.exr'', file_header = rgb_header\<rparr>"
        "[''B'', ''G'', ''R'']" window_0 "ReadTiles 0 0 0 0" sample_backend ?s sample_ops "[]" "[]"]
      read_call_opened a
    by (simp add: opened_eq rgb_header_def)
  have 2: "read sample_backend sample_ops [] window_0 (opened_rgba, [])
     = read_finish sample_ops [] [?s ''R'', ?s ''G'', ?s ''B'', ?s ''A''] ([] @ [ReadPixels 0 255])"
    using read_canonical_order [of opened_rgba "\<lparr>file_name = ''rgba.exr'', file_header = rgba_header\<rparr>"
        "[''A'', ''B'', ''G'', ''R'']" window_0 "ReadPixels 0 255" sample_backend ?s sample_ops "[]" "[]"]
      read_call_scan [of opened_rgba] a
    by (simp add: opened_rgba_eq rgba_header_def)
  have 3: "read sample_backend sample_ops [] window_0 (opened_z, [])
     = read_finish sample_ops [] (map ?s [''Z'']) ([] @ [ReadPixels 0 255])"
    using read_canonical_order [of opened_z "\<lparr>file_name = ''z.exr'', file_header = z_header\<rparr>"
        "[''Z'']" window_0 "ReadPixels 0 255" sample_backend ?s sample_ops "[]" "[]"]
      read_call_scan [of opened_z] a
    by (simp add: opened_z_eq z_header_def)
  from 1 2 3 show ?thesis
    by (simp add: read_finish_def sample_ops_def)
qed

theorem read_backend_order_witness:
  "read sample_backend sample_ops [] window_0 (opened_xyz, [])
     = (None, [''X-samples'', ''Y-samples'', ''Z-samples''], [ReadPixels 0 255])"
proof -
  let ?s = "\<lambda>name. name @ ''-samples''"
  have a: "read_answer sample_backend f bb call = Inr ?s" if "file_name f \<noteq> ''short.exr''" for f bb call
    using that by (simp add: sample_backend_def)
  have "read sample_backend sample_ops [] window_0 (opened_xyz, [])
     = read_finish sample_ops [] (map ?s [''X'', ''Y'', ''Z'']) ([] @ [ReadPixels 0 255])"
    using read_backend_order [of opened_xyz "\<lparr>file_name = ''xyz.exr'', file_header = xyz_header\<rparr>"
        "[''X'', ''Y'', ''Z'']" window_0 "ReadPixels 0 255" sample_backend ?s sample_ops "[]" "[]"]
      read_call_scan [of opened_xyz] a
    by (simp add: opened_xyz_eq xyz_header_def)
  then show ?thesis
    by (simp add: read_finish_def sample_ops_def)
qed


section \<open>Tile alignment\<close>

lemma tile_range_aligned:
  assumes "bw \<noteq> 0" "bh \<noteq> 0" "bmin bb = (x, y)"
  shows "tile_range (bw, bh) bb msg =
    (if bw dvd x \<and> bh dvd y
     then Inr (x sdiv bw, (fst (bmax bb) - 1) sdiv bw, y sdiv bh, (snd (bmax bb) - 1) sdiv bh)
     else Inl (Throw_vw (ArgumentErr msg)))"
  using assms
  by (auto simp: tile_range_def VW_ASSERT_def smod_zero_iff Let_def split: prod.splits)

lemma reorder_nonempty:
  assumes "[] \<notin> set cs"
  shows "[] \<notin> set (reorder_channel_names (int (length cs)) cs)
       \<and> length (reorder_channel_names (int (length cs)) cs) = length cs"
proof -
  consider "length cs = 3" | "length cs = 4" | "length cs \<noteq> 3 \<and> length cs \<noteq> 4" by blast
  then show ?thesis
  proof cases
    case 1
    with assms reorder_3 [OF 1] show ?thesis by auto
  next
    case 2
    with assms reorder_4 [OF 2] show ?thesis by auto
  next
    case 3
    then have "reorder_channel_names (int (length cs)) cs = cs"
      by (intro reorder_other) auto
    with assms show ?thesis by simp
  qed
qed

lemma is_ArgumentErr_catch_iex: "is_ArgumentErr (catch_iex p x) = is_ArgumentErr x"
  by (cases "(p, x)" rule: catch_iex.cases) auto

lemma read_tiled_ArgumentErr:
  assumes t: "m_tiled r" and bs: "m_block_size r = (bw, bh)" and z: "bw \<noteq> 0" "bh \<noteq> 0"
    and o: "bmin bb = (x, y)"
    and f: "m_input_file_ptr r = Some f"
    and n: "planes (m_format r) = int (length (channels (file_header f)))"
    and ne: "[] \<notin> set (channels (file_header f))"
    and c: "\<forall>img. fst (convert_out ops dest img) = None"
  shows "is_ArgumentErr (fst (read be ops dest bb (r, io))) \<longleftrightarrow> \<not> (bw dvd x \<and> bh dvd y)"
proof -
  let ?cs = "channels (file_header f)"
  let ?names = "reorder_channel_names (int (length ?cs)) ?cs"
  have h: "header_channel_names (nat (int (length ?cs))) ?cs = Some ?cs"
    by (simp add: header_channel_names_def)
  from reorder_nonempty [OF ne]
  have "\<forall>nn \<in> set [0 ..< length ?cs]. nn < length ?names \<and> ?names ! nn \<noteq> []"
    by (auto simp: in_set_conv_nth)
  from frameBuffer_loop_nonempty [OF this]
  obtain fb where fb: "frameBuffer_loop be ?names [0 ..< length ?cs] [] = Inr fb" by blast
  have fin: "fst (read_finish ops dest img io') = None" for img io'
    using c by (simp add: read_finish_def case_prod_beta)
  show ?thesis
  proof (cases "bw dvd x \<and> bh dvd y")
    case True
    then obtain call where call: "read_call r bb = Inr call"
      using t bs tile_range_aligned [OF z o] by (simp add: read_call_def)
    show ?thesis
    proof (cases "read_answer be f bb call")
      case (Inl e)
      with True f n h fb call show ?thesis
        by (simp add: read_def read_try_def Let_def)
    next
      case (Inr samples)
      with True f n h fb call fin show ?thesis
        by (simp add: read_def read_try_def Let_def is_ArgumentErr_catch_iex case_prod_beta)
    qed
  next
    case False
    then have "read_call r bb = Inl (Throw_vw (ArgumentErr
        (''DiskImageResourceOpenEXR: bbox corner must fall on ''
             @ ''tile boundary for read of tiled images.'')))"
      using t bs tile_range_aligned [OF z o] by (simp add: read_call_def)
    with False f n h fb show ?thesis
      by (simp add: read_def read_try_def Let_def)
  qed
qed

lemma write_tiled_ArgumentErr:
  assumes t: "m_tiled r" and bs: "m_block_size r = (bw, bh)" and z: "bw \<noteq> 0" "bh \<noteq> 0"
    and o: "bmin bb = (x, y)"
    and g: "m_output_file_ptr r = Some g"
    and n: "nat (planes (m_format r)) \<le> length (m_labels r)"
    and ne: "\<forall>nn < nat (planes (m_format r)). m_labels r ! nn \<noteq> []"
    and c: "convert_in ops (width bb) (height bb) (planes (m_format r)) src = Inr block"
  shows "is_ArgumentErr (fst (write_exr be ops src bb (r, io))) \<longleftrightarrow> \<not> (bw dvd x \<and> bh dvd y)"
proof -
  from n ne
  have "\<forall>nn \<in> set [0 ..< nat (planes (m_format r))]. nn < length (m_labels r) \<and> m_labels r ! nn \<noteq> []"
    by auto
  from frameBuffer_loop_nonempty [OF this]
  obtain fb where fb: "frameBuffer_loop be (m_labels r) [0 ..< nat (planes (m_format r))] [] = Inr fb" by blast
  have i: "\<not> is_ArgumentErr (catch_iex p (map_option Throw_iex y))" for p y
    by (cases y) auto
  show ?thesis
  proof (cases "bw dvd x \<and> bh dvd y")
    case True
    then obtain call where call: "write_call r bb = Inr call"
      using t bs tile_range_aligned [OF z o] by (simp add: write_call_def)
    with True g c fb i show ?thesis
      by (simp add: write_exr_def write_try_def)
  next
    case False
    then have "write_call r bb = Inl (Throw_vw (ArgumentErr
        (''DiskImageResourceOpenEXR: bbox corner must fall on ''
             @ ''tile boundary for writing of tiled images.'')))"
      using t bs tile_range_aligned [OF z o] by (simp add: write_call_def)
    with False g c fb show ?thesis
      by (simp add: write_exr_def write_try_def)
  qed
qed

text \<open>
  C3. A tiled resource has block size \<open>(bw, bh)\<close>, both not zero, and the window has its
  corner at \<open>(x, y)\<close>. When the resource is bound for reading, with the plane count that
  \<^verbatim>\<open>open\<close> sets and no empty channel name, and the conversion into the destination raises
  nothing, \<^verbatim>\<open>read\<close> raises \<^verbatim>\<open>ArgumentErr\<close> exactly when \<open>x\<close> is not a multiple of \<open>bw\<close> or \<open>y\<close>
  not a multiple of \<open>bh\<close>. When it is bound for writing, with a non-empty label for every
  plane as \<^verbatim>\<open>create\<close> leaves them, and the conversion into the staging image succeeds,
  the same holds of \<^verbatim>\<open>write\<close>.
\<close>

theorem tile_alignment_ArgumentErr:
  assumes "m_tiled r" and "m_block_size r = (bw, bh)" and "bw \<noteq> 0" and "bh \<noteq> 0"
    and "bmin bb = (x, y)"
  shows "(m_input_file_ptr r = Some f
          \<and> planes (m_format r) = int (length (channels (file_header f)))
          \<and> [] \<notin> set (channels (file_header f))
          \<and> (\<forall>img. fst (convert_out ops dest img) = None)
          \<longrightarrow> (is_ArgumentErr (fst (read be ops dest bb (r, io)))
                \<longleftrightarrow> \<not> (bw dvd x \<and> bh dvd y)))
       \<and> (m_output_file_ptr r = Some g
          \<and> nat (planes (m_format r)) \<le> length (m_labels r)
          \<and> (\<forall>nn < nat (planes (m_format r)). m_labels r ! nn \<noteq> [])
          \<and> convert_in ops (width bb) (height bb) (planes (m_format r)) src = Inr block
          \<longrightarrow> (is_ArgumentErr (fst (write_exr be ops src bb (r, io)))
                \<longleftrightarrow> \<not> (bw dvd x \<and> bh dvd y)))"
  using read_tiled_ArgumentErr [OF assms, of f ops dest be io]
    write_tiled_ArgumentErr [OF assms, of g ops src block be io]
  by blast

lemma created_256_facts:
  "m_tiled created_256" "m_block_size created_256 = (256, 256)"
  "m_output_file_ptr created_256 \<noteq> None" "m_labels created_256 = [''R'', ''G'', ''B'']"
  "planes (m_format created_256) = 3"
  by code_simp+

theorem tile_alignment_ArgumentErr_witness:
  "\<not> is_ArgumentErr (fst (read sample_backend sample_ops [] window_256 (opened, [])))
   \<and> is_ArgumentErr (fst (read sample_backend sample_ops [] window_100 (opened, [])))
   \<and> \<not> is_ArgumentErr (fst (write_exr sample_backend sample_ops [''r'', ''g'', ''b''] window_256
                             (created_256, [])))
   \<and> is_ArgumentErr (fst (write_exr sample_backend sample_ops [''r'', ''g'', ''b''] window_100
                           (created_256, [])))"
proof -
  obtain g where g: "m_output_file_ptr created_256 = Some g"
    using created_256_facts(3) by blast
  have d: "(256::int) dvd 256" "(256::int) dvd 0" "\<not> (256::int) dvd 100"
    by simp_all
  have r1: "\<not> is_ArgumentErr (fst (read sample_backend sample_ops [] window_256 (opened, [])))"
    using tile_alignment_ArgumentErr [where r = opened and bw = 256 and bh = 256
        and bb = window_256 and x = 256 and y = 0
        and f = "\<lparr>file_name = ''a.exr'', file_header = rgb_header\<rparr>"
        and ops = sample_ops and dest = "[]" and be = sample_backend and io = "[]"]
      d by (simp add: opened_eq window_256_def rgb_header_def sample_ops_def)
  have r2: "is_ArgumentErr (fst (read sample_backend sample_ops [] window_100 (opened, [])))"
    using tile_alignment_ArgumentErr [where r = opened and bw = 256 and bh = 256
        and bb = window_100 and x = 100 and y = 0
        and f = "\<lparr>file_name = ''a.exr'', file_header = rgb_header\<rparr>"
        and ops = sample_ops and dest = "[]" and be = sample_backend and io = "[]"]
      d by (simp add: opened_eq window_100_def rgb_header_def sample_ops_def)
  have l: "\<forall>nn < 3. [''R'', ''G'', ''B''] ! nn \<noteq> []"
    by (simp add: less_Suc_eq numeral_3_eq_3)
  have c: "convert_in sample_ops w h n [''r'', ''g'', ''b'']
           = Inr (\<lambda>nn. if nn < length [''r'', ''g'', ''b''] then [''r'', ''g'', ''b''] ! nn else ''zeros'')" for w h n
    by (simp add: sample_ops_def)
  have w1: "\<not> is_ArgumentErr (fst (write_exr sample_backend sample_ops [''r'', ''g'', ''b''] window_256
                             (created_256, [])))"
    using tile_alignment_ArgumentErr [where r = created_256 and bw = 256 and bh = 256
        and bb = window_256 and x = 256 and y = 0 and g = g
        and ops = sample_ops and src = "[''r'', ''g'', ''b'']" and be = sample_backend
        and io = "[]"]
      d g l c created_256_facts by (simp add: window_256_def)
  have w2: "is_ArgumentErr (fst (write_exr sample_backend sample_ops [''r'', ''g'', ''b''] window_100
                             (created_256, [])))"
    using tile_alignment_ArgumentErr [where r = created_256 and bw = 256 and bh = 256
        and bb = window_100 and x = 100 and y = 0 and g = g
        and ops = sample_ops and src = "[''r'', ''g'', ''b'']" and be = sample_backend
        and io = "[]"]
      d g l c created_256_facts by (simp add: window_100_def)
  from r1 r2 w1 w2 show ?thesis by blast
qed


section \<open>Exceptions of the library\<close>





lemma open_missing_tiles_raises:
  assumes "m_input_file_ptr r = None" and "new_InputFile be filename = Inr h"
    and "\<not> hasTileDescription h" and "m_tiled r"
  shows "fst (open_exr be rpb filename (r, io)) =
    Some (Throw_vw (IOErr (''DiskImageResourceOpenEXR: could not open '' @ filename
                             @ [CHR '':'', CHR 0x0A, CHR 0x09] @ missing_attribute_what be)))"
proof -
  from assms(3) have "tileDescription h = None"
    unfolding hasTileDescription_def by blast
  with assms show ?thesis
    by (simp add: open_exr_def open_try_def open_header_def Let_def case_prod_beta)
qed











section \<open>The scanline layout\<close>

text \<open>
  Whenever \<^verbatim>\<open>set_scanline_write\<close> succeeds the block height is the class constant
  \<^verbatim>\<open>m_openexr_rows_per_block\<close>, assigned at line 219 over the value of line 199.
\<close>

lemma set_scanline_write_block_size:
  assumes "set_scanline_write be rpb spb (r, io) = (None, r', io')"
  shows "m_block_size r' = (cols (m_format r), rpb)"
proof -
  obtain y labels chans where
    l: "label_loop be (pixel_format (m_format r)) [0 ..< nat (planes (m_format r))]
          (m_labels r) (channels (Header (cols (m_format r)) (rows (m_format r))))
        = (y, labels, chans)"
    using prod_cases3 by blast
  have c: "catch_iex p x = None \<Longrightarrow> x = None" for p x
    by (cases "(p, x)" rule: catch_iex.cases) auto
  from assms l show ?thesis
    by (auto simp: set_scanline_write_def set_scanline_write_begin_def
        set_scanline_write_try_def Let_def split: option.splits dest!: c)
qed

text \<open>
  C2 does not hold of the code: on the resource that \<^verbatim>\<open>create\<close> bound for writing, with
  the class constant 10, \<^verbatim>\<open>set_scanline_write(64)\<close> succeeds and leaves the block size
  (512, 10): the height is not 64.
\<close>

theorem set_scanline_write_rows_ignored:
  "fst (set_scanline_write sample_backend 10 64 (created, [])) = None
   \<and> native_block_size (fst (snd (set_scanline_write sample_backend 10 64 (created, []))))
       = (512, 10)"
  by code_simp

section \<open>The georeference: pixels and points\<close>

lemma det3_shift:
  "affine T \<Longrightarrow> det3 (mat_mul T (Shift dx dy)) = det3 T"
  by (cases T rule: prod_cases3; auto simp: affine_def det3_def mat_mul_def Shift_def algebra_simps split: prod.splits)

lemma affine_shift: "affine T \<Longrightarrow> affine (mat_mul T (Shift dx dy))"
  by (auto simp: affine_def mat_mul_def Shift_def split: prod.splits)

lemma inverse3_apply:
  assumes "affine A" "det3 A \<noteq> 0"
  shows "apply_transform (inverse3 A) (apply_transform A p) = p"
proof -
  obtain a b c d e f where A: "A = ((a, b, c), (d, e, f), (0, 0, 1))"
    using assms(1) by (cases A rule: prod_cases3) (auto simp: affine_def)
  obtain x y where p: "p = (x, y)" by (cases p)
  from assms(2) A have D: "a * e - b * d \<noteq> 0"
    by (simp add: det3_def)
  have "apply_transform (inverse3 A) (apply_transform A p) =
        ((e * (a * x + b * y + c) - b * (d * x + e * y + f) + (b * f - c * e)) / (a * e - b * d),
         (a * (d * x + e * y + f) - d * (a * x + b * y + c) + (c * d - a * f)) / (a * e - b * d))"
    by (simp add: A p apply_transform_def inverse3_def det3_def Let_def
        add_divide_distrib diff_divide_distrib)
  also have "(e * (a * x + b * y + c) - b * (d * x + e * y + f) + (b * f - c * e))
             = x * (a * e - b * d)"
    by (simp add: algebra_simps)
  also have "(a * (d * x + e * y + f) - d * (a * x + b * y + c) + (c * d - a * f))
             = y * (a * e - b * d)"
    by (simp add: algebra_simps)
  finally show ?thesis
    using D by (simp add: p)
qed

text \<open>
  C9, over the real numbers. In a georeference that \<^verbatim>\<open>set_transform\<close> has given a
  non-singular affine transform \<open>T\<close>, \<^verbatim>\<open>point_to_pixel\<close> undoes \<^verbatim>\<open>pixel_to_point\<close> at every
  pixel; \<^verbatim>\<open>pixel_to_point\<close> applies the native transform (\<open>T\<close>, shifted by half a pixel
  under \<open>PixelAsArea\<close>) and \<^verbatim>\<open>point_to_pixel\<close> its inverse.
\<close>

theorem pixel_point_round_trip:
  assumes "set_transform T g0 = Inr g" and "affine T"
  shows "point_to_pixel g (pixel_to_point g p) = p
       \<and> pixel_to_point g p =
           apply_transform (if m_pixel_interpretation g = PixelAsArea
                            then mat_mul T (Shift (1 / 2) (1 / 2)) else T) p
       \<and> point_to_pixel g q =
           apply_transform (inverse3 (if m_pixel_interpretation g = PixelAsArea
                                      then mat_mul T (Shift (1 / 2) (1 / 2)) else T)) q"
proof -
  from assms(1) have d: "det3 T \<noteq> 0"
    and g: "g = g0\<lparr>m_transform := T,
                 m_inv_transform := inverse3 T,
                 m_shifted_transform := mat_mul T (Shift (1 / 2) (1 / 2)),
                 m_inv_shifted_transform := inverse3 (mat_mul T (Shift (1 / 2) (1 / 2)))\<rparr>"
    by (auto simp: set_transform_def split: if_splits)
  have s: "det3 (mat_mul T (Shift (1 / 2) (1 / 2))) \<noteq> 0"
    using d det3_shift [OF assms(2)] by simp
  show ?thesis
    using inverse3_apply [OF assms(2) d, of p]
      inverse3_apply [OF affine_shift [OF assms(2)] s, of p]
    by (simp add: g point_to_pixel_def pixel_to_point_def vw_native_transform_def
        vw_native_inverse_transform_def)
qed


theorem pixel_point_round_trip_witness:
  "set_transform sample_transform sample_georef = Inr moved_georef
   \<and> affine sample_transform
   \<and> pixel_to_point moved_georef (3, 4) = (17, 11)
   \<and> point_to_pixel moved_georef (pixel_to_point moved_georef (3, 4)) = (3, 4)"
proof -
  have s: "set_transform sample_transform sample_georef = Inr moved_georef"
    by (simp add: moved_georef_def set_transform_def sample_transform_def det3_def)
  have a: "affine sample_transform"
    by (simp add: affine_def sample_transform_def)
  have i: "m_pixel_interpretation moved_georef = PixelAsArea"
    by (simp add: moved_georef_def set_transform_def sample_transform_def det3_def
        sample_georef_def)
  note r = pixel_point_round_trip [OF s a, where p = "(3, 4)" and q = "(17, 11)"]
  have "point_to_pixel moved_georef (pixel_to_point moved_georef (3, 4)) = (3, 4)"
    by (rule r [THEN conjunct1])
  moreover have "pixel_to_point moved_georef (3, 4)
         = apply_transform (mat_mul sample_transform (Shift (1 / 2) (1 / 2))) (3, 4)"
    using r [THEN conjunct2, THEN conjunct1] i by simp
  moreover have "apply_transform (mat_mul sample_transform (Shift (1 / 2) (1 / 2))) (3, 4)
                 = (17, 11)"
    by (simp add: apply_transform_def mat_mul_def Shift_def sample_transform_def)
  ultimately show ?thesis using s a by simp
qed

end
